theory Spec2Isabelle
  imports Main
begin

section \<open>Whisp: one-time secrets (app/main.py)\<close>

text \<open>
  The three request handlers of \<^verbatim>\<open>app/main.py\<close> (\<^verbatim>\<open>create_whisp\<close>,
  \<^verbatim>\<open>get_whisp\<close>, \<^verbatim>\<open>get_whisp_file\<close>) and its two background tasks
  (\<^verbatim>\<open>cleanup_expired_whisps\<close>, \<^verbatim>\<open>delete_file\<close>) as functions on an explicit
  state: the table of whisps and the files on disk. A handler returns its result (an
  exception or a value), the new state and the background tasks it scheduled.
\<close>

subsection \<open>Values\<close>

text \<open>
  A Python \<^verbatim>\<open>str\<close> is the list of the bytes of its UTF-8 encoding, and \<^verbatim>\<open>bytes\<close>
  is a list of bytes as well, so \<^verbatim>\<open>encode('utf-8')\<close> and \<^verbatim>\<open>decode('utf-8')\<close> do
  not appear in the model. A \<^verbatim>\<open>datetime\<close> is a number of microseconds.
\<close>

type_synonym bytes = string
type_synonym datetime = int

definition timedelta_minutes :: "int \<Rightarrow> int" where
  "timedelta_minutes m = m * 60000000"

text \<open>
  What \<^verbatim>\<open>json.loads\<close> returns. \<^verbatim>\<open>JNull\<close> is Python's \<^verbatim>\<open>None\<close>; an object keeps
  its members in the order of the text. Numbers with a fraction or an exponent are left
  out; they would behave as \<^verbatim>\<open>JInt\<close> does everywhere below.
\<close>

datatype json =
    JNull
  | JBool bool
  | JInt int
  | JStr string
  | JArr "json list"
  | JObj "(string \<times> json) list"

text \<open>Python's truth value of such a value (\<^verbatim>\<open>if encryption_key:\<close>).\<close>

fun truthy :: "json \<Rightarrow> bool" where
  "truthy JNull = False"
| "truthy (JBool b) = b"
| "truthy (JInt i) = (i \<noteq> 0)"
| "truthy (JStr s) = (s \<noteq> [])"
| "truthy (JArr xs) = (xs \<noteq> [])"
| "truthy (JObj kvs) = (kvs \<noteq> [])"

text \<open>
  \<^verbatim>\<open>d.get(k)\<close> on a dict built from a JSON object: the last member with that name,
  \<^verbatim>\<open>None\<close> when there is none.
\<close>

definition dict_get :: "(string \<times> json) list \<Rightarrow> string \<Rightarrow> json" where
  "dict_get kvs k = (case map_of (rev kvs) k of None \<Rightarrow> JNull | Some v \<Rightarrow> v)"

text \<open>The truth value of an \<^verbatim>\<open>Optional[str]\<close>: neither \<^verbatim>\<open>None\<close> nor empty.\<close>

fun str_truthy :: "string option \<Rightarrow> bool" where
  "str_truthy None = False"
| "str_truthy (Some s) = (s \<noteq> [])"

subsection \<open>Paths (posixpath)\<close>

text \<open>
  \<^verbatim>\<open>os.path.basename(p)\<close> is \<^verbatim>\<open>p[p.rfind('/') + 1:]\<close>: what follows the last slash.
\<close>

definition os_path_basename :: "string \<Rightarrow> string" where
  "os_path_basename p = rev (takeWhile (\<lambda>c. c \<noteq> CHR ''/'') (rev p))"

text \<open>\<^verbatim>\<open>os.path.join(a, b)\<close> with two arguments.\<close>

definition os_path_join :: "string \<Rightarrow> string \<Rightarrow> string" where
  "os_path_join a b =
     (if b \<noteq> [] \<and> hd b = CHR ''/'' then b
      else if a = [] \<or> last a = CHR ''/'' then a @ b
      else a @ ''/'' @ b)"

subsection \<open>Collaborators and configuration\<close>

text \<open>
  The code that \<^verbatim>\<open>main.py\<close> imports and the two settings it reads from the
  environment are parameters of the model:
  \<^item> \<^verbatim>\<open>get_password_hash\<close>, \<^verbatim>\<open>verify_password\<close> of \<^verbatim>\<open>app.core.security\<close>;
  \<^item> \<^verbatim>\<open>Fernet(key)\<close>, which raises \<^verbatim>\<open>ValueError\<close> on a malformed key
    (\<^verbatim>\<open>fernet_key_ok\<close> is False), \<^verbatim>\<open>f.encrypt\<close>, and \<^verbatim>\<open>f.decrypt\<close>, which raises
    \<^verbatim>\<open>InvalidToken\<close> (\<^verbatim>\<open>None\<close>) when the token does not authenticate;
  \<^item> \<^verbatim>\<open>json.dumps\<close>, and \<^verbatim>\<open>json.loads\<close>, which raises on text that is not JSON
    (\<^verbatim>\<open>None\<close>);
  \<^item> the operating system: whether \<^verbatim>\<open>open(path, "wb")\<close> succeeds (it raises
    \<^verbatim>\<open>OSError\<close> for a name that is too long, a missing directory, a missing
    permission), and whether writing these bytes to the open file succeeds (it raises
    \<^verbatim>\<open>OSError\<close> on a full disk);
  \<^item> \<^verbatim>\<open>str\<close> of a list or a dict, which is its \<^verbatim>\<open>repr\<close>;
  \<^item> \<^verbatim>\<open>STORAGE_DIR\<close> and \<^verbatim>\<open>MAX_FILE_SIZE\<close>.
\<close>

record env =
  get_password_hash :: "string \<Rightarrow> string"
  verify_password :: "string \<Rightarrow> string \<Rightarrow> bool"
  fernet_key_ok :: "bytes \<Rightarrow> bool"
  fernet_encrypt :: "bytes \<Rightarrow> bytes \<Rightarrow> bytes"
  fernet_decrypt :: "bytes \<Rightarrow> bytes \<Rightarrow> bytes option"
  json_dumps :: "json \<Rightarrow> string"
  json_loads :: "string \<Rightarrow> json option"
  can_open :: "string \<Rightarrow> bool"
  can_write :: "string \<Rightarrow> bytes \<Rightarrow> bool"
  py_repr :: "json \<Rightarrow> string"
  STORAGE_DIR :: string
  MAX_FILE_SIZE :: int

text \<open>
  Line 31: the limit is the environment variable \<^verbatim>\<open>MAX_FILE_SIZE\<close> when it is set, and
  10 MiB otherwise.
\<close>

definition max_file_size_setting :: "int option \<Rightarrow> int" where
  "max_file_size_setting v = (case v of None \<Rightarrow> 10 * 1024 * 1024 | Some n \<Rightarrow> n)"

subsection \<open>State\<close>

text \<open>A row of the table \<^verbatim>\<open>Whisp\<close> (\<^verbatim>\<open>app.db.models\<close>), with the columns the handlers use.\<close>

record whisp =
  whisp_id :: string
  encrypted_payload :: string
  is_file :: bool
  file_path :: "string option"
  password_hash :: "string option"
  expires_at :: datetime

text \<open>
  Modelled from the spec: \<^verbatim>\<open>schemas.WhispRead\<close> (\<^verbatim>\<open>app.api.schemas\<close>) is not among the
  sources. It is the public view of a row: the id, the payload, the file flag and the
  expiry, never the password hash.
\<close>

record whisp_read =
  read_id :: string
  read_payload :: string
  read_is_file :: bool
  read_expires_at :: datetime

definition model_validate :: "whisp \<Rightarrow> whisp_read" where
  "model_validate w =
     \<lparr>read_id = whisp_id w, read_payload = encrypted_payload w,
      read_is_file = is_file w, read_expires_at = expires_at w\<rparr>"

text \<open>The table is keyed by the id (its primary key); the disk maps a path to a file's bytes.\<close>

record state =
  db :: "string \<rightharpoonup> whisp"
  files :: "string \<rightharpoonup> bytes"

text \<open>
  The exceptions that leave a handler: an \<^verbatim>\<open>HTTPException\<close> with its status code, and
  the exceptions of the libraries that no handler catches.
\<close>

datatype error =
    HTTPException nat
  | InvalidToken
  | ValueError
  | AttributeError
  | IntegrityError
  | OSError
  | UnicodeEncodeError

datatype task = CleanupExpired | DeleteFile string

record upload =
  filename :: "string option"
  content :: bytes

record response =
  resp_content :: bytes
  resp_filename :: json

subsection \<open>Background tasks\<close>

text \<open>\<^verbatim>\<open>cleanup_expired_whisps\<close>: \<^verbatim>\<open>DELETE FROM whisps WHERE expires_at < now\<close>.\<close>

definition cleanup_expired_whisps :: "datetime \<Rightarrow> state \<Rightarrow> state" where
  "cleanup_expired_whisps now s =
     s\<lparr>db := (\<lambda>k. case db s k of
                    None \<Rightarrow> None
                  | Some w \<Rightarrow> if expires_at w < now then None else Some w)\<rparr>"

text \<open>\<^verbatim>\<open>delete_file\<close>: remove the file when it exists.\<close>

definition delete_file :: "string \<Rightarrow> state \<Rightarrow> state" where
  "delete_file path s =
     (if files s path \<noteq> None then s\<lparr>files := (files s)(path := None)\<rparr> else s)"

fun run_task :: "datetime \<Rightarrow> task \<Rightarrow> state \<Rightarrow> state" where
  "run_task now CleanupExpired s = cleanup_expired_whisps now s"
| "run_task now (DeleteFile p) s = delete_file p s"

subsection \<open>create_whisp\<close>

definition CHUNK_SIZE :: nat where
  "CHUNK_SIZE = 1024 * 1024"

text \<open>
  The loop of lines 222-240. It reads the upload in chunks of \<^verbatim>\<open>CHUNK_SIZE\<close> bytes and
  only counts them; the result says whether the count went over the limit (the
  \<^verbatim>\<open>raise\<close> of line 231) before the upload ended (the \<^verbatim>\<open>break\<close> of line 225).
\<close>

function read_chunks :: "int \<Rightarrow> bytes \<Rightarrow> int \<Rightarrow> bool" where
  "read_chunks max_size rest total_size =
     (let chunk = take CHUNK_SIZE rest in
      if chunk = [] then False
      else let total_size' = total_size + int (length chunk) in
        if total_size' > max_size then True
        else read_chunks max_size (drop CHUNK_SIZE rest) total_size')"
  by pat_completeness auto
termination
  by (relation "measure (\<lambda>(m, rest, t). length rest)") (auto simp: CHUNK_SIZE_def)

text \<open>Lines 201-202: the name of the blob on disk.\<close>

definition safe_filename :: "upload \<Rightarrow> string" where
  "safe_filename file =
     os_path_basename (if str_truthy (filename file) then the (filename file) else ''unnamed'')"

definition blob_path :: "env \<Rightarrow> string \<Rightarrow> upload \<Rightarrow> string" where
  "blob_path E wid file =
     os_path_join (STORAGE_DIR E) (wid @ ''_'' @ safe_filename file @ ''.enc'')"

text \<open>
  The body of the \<^verbatim>\<open>try\<close> (lines 221-250): the exception it raises, if any, and the
  disk it leaves. Opening the file for writing creates it empty, or raises and creates
  nothing; the loop counts; the second \<^verbatim>\<open>open\<close> of the same path truncates the file
  again; the write stores the ciphertext, or raises and leaves a file that the handler
  of lines 252-258 removes.
\<close>

definition write_upload :: "env \<Rightarrow> string \<Rightarrow> bytes \<Rightarrow> bytes \<Rightarrow> (string \<rightharpoonup> bytes)
    \<Rightarrow> error option \<times> (string \<rightharpoonup> bytes)" where
  "write_upload E path key data fs =
     (if \<not> can_open E path then (Some OSError, fs)
      else
        let fs1 = fs(path \<mapsto> []) in
        if read_chunks (MAX_FILE_SIZE E) data 0 then (Some (HTTPException 413), fs1(path := None))
        else if int (length data) > MAX_FILE_SIZE E then (Some (HTTPException 413), fs1)
        else if \<not> can_write E path (fernet_encrypt E key data) then (Some OSError, fs1)
        else (None, fs1(path \<mapsto> fernet_encrypt E key data)))"

text \<open>
  The \<^verbatim>\<open>except Exception\<close> of lines 252-258: remove the file if it is there, pass an
  \<^verbatim>\<open>HTTPException\<close> on and turn anything else into a 500.
\<close>

definition upload_failed :: "string \<Rightarrow> error \<Rightarrow> (string \<rightharpoonup> bytes) \<Rightarrow> error \<times> (string \<rightharpoonup> bytes)" where
  "upload_failed path e fs =
     (let fs' = (if fs path \<noteq> None then fs(path := None) else fs) in
      case e of HTTPException c \<Rightarrow> (e, fs') | _ \<Rightarrow> (HTTPException 500, fs'))"

text \<open>
  \<^verbatim>\<open>create_whisp\<close>. \<^verbatim>\<open>now\<close> is \<^verbatim>\<open>datetime.utcnow()\<close>, \<^verbatim>\<open>wid\<close> is
  \<^verbatim>\<open>str(uuid.uuid4())\<close> and \<^verbatim>\<open>key\<close> is \<^verbatim>\<open>Fernet.generate_key()\<close>. Committing a
  row whose id is in the table already violates the primary key.
\<close>

definition create_whisp :: "env \<Rightarrow> datetime \<Rightarrow> string \<Rightarrow> bytes \<Rightarrow> string \<Rightarrow> int
    \<Rightarrow> string option \<Rightarrow> upload option \<Rightarrow> state \<Rightarrow> (error + whisp_read) \<times> state \<times> task list" where
  "create_whisp E now wid key payload ttl_minutes password file s =
     (if ttl_minutes < 1 \<or> ttl_minutes > 10080 then (Inl (HTTPException 400), s, [])
      else
        let expires = now + timedelta_minutes ttl_minutes;
            pw_hash = (if str_truthy password then Some (get_password_hash E (the password)) else None);
            path = map_option (blob_path E wid) file;
            final_payload = (case file of
                None \<Rightarrow> payload
              | Some f \<Rightarrow> json_dumps E (JObj [(''filename'', JStr payload), (''key'', JStr key)]));
            (failure, fs) = (case file of
                None \<Rightarrow> (None, files s)
              | Some f \<Rightarrow>
                  (case write_upload E (blob_path E wid f) key (content f) (files s) of
                     (None, fs1) \<Rightarrow> (None, fs1)
                   | (Some e, fs1) \<Rightarrow>
                       (case upload_failed (blob_path E wid f) e fs1 of (e', fs2) \<Rightarrow> (Some e', fs2))));
            s1 = s\<lparr>files := fs\<rparr>
        in case failure of
             Some e \<Rightarrow> (Inl e, s1, [])
           | None \<Rightarrow>
               let new_whisp = \<lparr>whisp_id = wid, encrypted_payload = final_payload,
                                is_file = (file \<noteq> None), file_path = path,
                                password_hash = pw_hash, expires_at = expires\<rparr>
               in if db s1 wid \<noteq> None then (Inl IntegrityError, s1, [])
                  else (Inr (model_validate new_whisp),
                        s1\<lparr>db := (db s1)(wid \<mapsto> new_whisp)\<rparr>, [CleanupExpired]))"

subsection \<open>get_whisp\<close>

text \<open>Lines 307-309 and 361-363: the request is refused with a 401.\<close>

definition password_refused :: "env \<Rightarrow> whisp \<Rightarrow> string option \<Rightarrow> bool" where
  "password_refused E w password =
     (str_truthy (password_hash w) \<and>
      (\<not> str_truthy password \<or> \<not> verify_password E (the password) (the (password_hash w))))"

definition get_whisp :: "env \<Rightarrow> datetime \<Rightarrow> string \<Rightarrow> string option \<Rightarrow> state
    \<Rightarrow> (error + whisp_read) \<times> state" where
  "get_whisp E now wid password s =
     (case db s wid of
        None \<Rightarrow> (Inl (HTTPException 404), s)
      | Some w \<Rightarrow>
          if expires_at w < now then (Inl (HTTPException 404), s)
          else if password_refused E w password then (Inl (HTTPException 401), s)
          else
            let data = model_validate w in
            if \<not> is_file w then
              let s1 = s\<lparr>db := (db s)(wid := None)\<rparr>;
                  s2 = (if str_truthy (file_path w) \<and> files s1 (the (file_path w)) \<noteq> None
                        then s1\<lparr>files := (files s1)(the (file_path w) := None)\<rparr> else s1)
              in (Inr data, s2)
            else (Inr data, s))"

text \<open>
  The handler gives up control at each \<^verbatim>\<open>await\<close>. The first one is the
  \<^verbatim>\<open>SELECT\<close> of lines 300-301; \<^verbatim>\<open>get_whisp_rest\<close> is what follows it (lines
  303-321), which works on the row that was read, in the state the database and the disk
  have by then. Deleting a row that is no longer there deletes nothing.
\<close>

definition select_whisp :: "state \<Rightarrow> string \<Rightarrow> whisp option" where
  "select_whisp s wid = db s wid"

definition get_whisp_rest :: "env \<Rightarrow> datetime \<Rightarrow> string \<Rightarrow> string option \<Rightarrow> whisp option
    \<Rightarrow> state \<Rightarrow> (error + whisp_read) \<times> state" where
  "get_whisp_rest E now wid password row s =
     (case row of
        None \<Rightarrow> (Inl (HTTPException 404), s)
      | Some w \<Rightarrow>
          if expires_at w < now then (Inl (HTTPException 404), s)
          else if password_refused E w password then (Inl (HTTPException 401), s)
          else
            let data = model_validate w in
            if \<not> is_file w then
              let s1 = s\<lparr>db := (db s)(wid := None)\<rparr>;
                  s2 = (if str_truthy (file_path w) \<and> files s1 (the (file_path w)) \<noteq> None
                        then s1\<lparr>files := (files s1)(the (file_path w) := None)\<rparr> else s1)
              in (Inr data, s2)
            else (Inr data, s))"

subsection \<open>get_whisp_file\<close>

text \<open>
  Lines 368-375: the key and the file name out of the payload. \<^verbatim>\<open>metadata.get\<close> raises
  \<^verbatim>\<open>AttributeError\<close> when the payload is JSON but not an object; the bare \<^verbatim>\<open>except\<close>
  catches that as it catches the error of \<^verbatim>\<open>json.loads\<close>.
\<close>

definition read_metadata :: "env \<Rightarrow> string \<Rightarrow> json \<times> json" where
  "read_metadata E payload =
     (case json_loads E payload of
        Some (JObj kvs) \<Rightarrow> (dict_get kvs ''key'', dict_get kvs ''filename'')
      | _ \<Rightarrow> (JNull, JStr ''downloaded_file''))"

text \<open>
  Lines 377-387: the bytes to serve. A key that is true but not a string has no
  \<^verbatim>\<open>encode\<close>; \<^verbatim>\<open>Fernet\<close> is built before the file is read.
\<close>

definition read_content :: "env \<Rightarrow> json \<Rightarrow> bytes \<Rightarrow> error + bytes" where
  "read_content E encryption_key blob =
     (if truthy encryption_key then
        (case encryption_key of
           JStr k \<Rightarrow>
             if \<not> fernet_key_ok E k then Inl ValueError
             else (case fernet_decrypt E k blob of None \<Rightarrow> Inl InvalidToken | Some c \<Rightarrow> Inr c)
         | _ \<Rightarrow> Inl AttributeError)
      else Inr blob)"

text \<open>
  Lines 397-401: \<^verbatim>\<open>Response\<close> encodes the \<^verbatim>\<open>Content-Disposition\<close> header as Latin-1
  and raises \<^verbatim>\<open>UnicodeEncodeError\<close> when it cannot. The fixed parts of the header are
  ASCII, and so is \<^verbatim>\<open>str\<close> of \<^verbatim>\<open>None\<close>, of a bool and of an int. A string is the
  bytes of its UTF-8 encoding: a character above U+00FF starts with a byte of 0xC4 or
  more.
\<close>

definition latin1 :: "string \<Rightarrow> bool" where
  "latin1 t = list_all (\<lambda>c. (of_char c :: nat) < 196) t"

definition filename_latin1 :: "env \<Rightarrow> json \<Rightarrow> bool" where
  "filename_latin1 E v =
     (case v of
        JStr t \<Rightarrow> latin1 t
      | JArr xs \<Rightarrow> latin1 (py_repr E v)
      | JObj kvs \<Rightarrow> latin1 (py_repr E v)
      | _ \<Rightarrow> True)"

definition make_response :: "env \<Rightarrow> bytes \<Rightarrow> json \<Rightarrow> error + response" where
  "make_response E c fname =
     (if filename_latin1 E fname then Inr \<lparr>resp_content = c, resp_filename = fname\<rparr>
      else Inl UnicodeEncodeError)"

text \<open>
  \<^verbatim>\<open>get_whisp_file\<close>. The row is deleted and committed (lines 390-391) before the
  response is built. A handler that raises sends no response, and the task it added in
  line 394 never runs.
\<close>

definition get_whisp_file :: "env \<Rightarrow> datetime \<Rightarrow> string \<Rightarrow> string option \<Rightarrow> state
    \<Rightarrow> (error + response) \<times> state \<times> task list" where
  "get_whisp_file E now wid password s =
     (case db s wid of
        None \<Rightarrow> (Inl (HTTPException 404), s, [])
      | Some w \<Rightarrow>
          if \<not> is_file w \<or> \<not> str_truthy (file_path w) \<or> expires_at w < now
          then (Inl (HTTPException 404), s, [])
          else
            let path = the (file_path w) in
            (case files s path of
               None \<Rightarrow> (Inl (HTTPException 404), s\<lparr>db := (db s)(wid := None)\<rparr>, [])
             | Some blob \<Rightarrow>
                 if password_refused E w password then (Inl (HTTPException 401), s, [])
                 else
                   let encryption_key = fst (read_metadata E (encrypted_payload w));
                       fname = snd (read_metadata E (encrypted_payload w))
                   in (case read_content E encryption_key blob of
                         Inl e \<Rightarrow> (Inl e, s, [])
                       | Inr c \<Rightarrow>
                           (case make_response E c fname of
                              Inl e \<Rightarrow> (Inl e, s\<lparr>db := (db s)(wid := None)\<rparr>, [])
                            | Inr r \<Rightarrow>
                                (Inr r, s\<lparr>db := (db s)(wid := None)\<rparr>, [DeleteFile path])))))"

text \<open>
  What follows the \<^verbatim>\<open>SELECT\<close> of lines 348-349 (lines 351-401), on the row that was
  read.
\<close>

definition get_whisp_file_rest :: "env \<Rightarrow> datetime \<Rightarrow> string \<Rightarrow> string option
    \<Rightarrow> whisp option \<Rightarrow> state \<Rightarrow> (error + response) \<times> state \<times> task list" where
  "get_whisp_file_rest E now wid password row s =
     (case row of
        None \<Rightarrow> (Inl (HTTPException 404), s, [])
      | Some w \<Rightarrow>
          if \<not> is_file w \<or> \<not> str_truthy (file_path w) \<or> expires_at w < now
          then (Inl (HTTPException 404), s, [])
          else
            let path = the (file_path w) in
            (case files s path of
               None \<Rightarrow> (Inl (HTTPException 404), s\<lparr>db := (db s)(wid := None)\<rparr>, [])
             | Some blob \<Rightarrow>
                 if password_refused E w password then (Inl (HTTPException 401), s, [])
                 else
                   let encryption_key = fst (read_metadata E (encrypted_payload w));
                       fname = snd (read_metadata E (encrypted_payload w))
                   in (case read_content E encryption_key blob of
                         Inl e \<Rightarrow> (Inl e, s, [])
                       | Inr c \<Rightarrow>
                           (case make_response E c fname of
                              Inl e \<Rightarrow> (Inl e, s\<lparr>db := (db s)(wid := None)\<rparr>, [])
                            | Inr r \<Rightarrow>
                                (Inr r, s\<lparr>db := (db s)(wid := None)\<rparr>, [DeleteFile path])))))"

subsection \<open>Requests\<close>

text \<open>
  The background tasks of a request run once its response has been sent: the state after
  the handler has returned and its tasks have run, at time \<^verbatim>\<open>t\<close>.
\<close>

definition request_done :: "datetime \<Rightarrow> 'a \<times> state \<times> task list \<Rightarrow> state" where
  "request_done t res = fold (run_task t) (snd (snd res)) (fst (snd res))"

subsection \<open>An instance for the examples\<close>

text \<open>
  The examples below run the handlers on a small instance of the parameters: a hash that
  prefixes the password, a cipher that prefixes the key to the plaintext and checks the
  prefix when it decrypts, keys of four bytes, a limit of eight bytes, a file system
  whose names have at most 255 bytes, and the functions of \<^verbatim>\<open>json\<close> on the payloads
  the examples use. \<^verbatim>\<open>omega_name\<close> is a file name that starts with a capital omega
  (U+03A9, the bytes CE A9), which \<^verbatim>\<open>json.dumps\<close> writes as an escape.
\<close>

definition omega_name :: string where
  "omega_name = [CHR 0xCE, CHR 0xA9] @ ''mega.txt''"

definition sample_dumps :: "json \<Rightarrow> string" where
  \<open>sample_dumps j =
     (if j = JObj [(''filename'', JStr ''notes.txt''), (''key'', JStr ''k3y='')]
      then ''{"filename": "notes.txt", "key": "k3y="}''
      else if j = JObj [(''filename'', JStr omega_name), (''key'', JStr ''k3y='')]
      then ''{"filename": "'' @ [CHR 0x5C] @ ''u03a9mega.txt", "key": "k3y="}''
      else ''null'')\<close>

definition sample_loads :: "string \<Rightarrow> json option" where
  \<open>sample_loads t =
     (if t = ''{"filename": "notes.txt", "key": "k3y="}''
      then Some (JObj [(''filename'', JStr ''notes.txt''), (''key'', JStr ''k3y='')])
      else if t = ''{"filename": "'' @ [CHR 0x5C] @ ''u03a9mega.txt", "key": "k3y="}''
      then Some (JObj [(''filename'', JStr omega_name), (''key'', JStr ''k3y='')])
      else if t = ''{"filename": "report.pdf"}''
      then Some (JObj [(''filename'', JStr ''report.pdf'')])
      else None)\<close>

definition sample_env :: env where
  "sample_env =
     \<lparr>get_password_hash = (\<lambda>p. ''$2b$'' @ p),
      verify_password = (\<lambda>p h. h = ''$2b$'' @ p),
      fernet_key_ok = (\<lambda>k. length k = 4),
      fernet_encrypt = (\<lambda>k d. k @ d),
      fernet_decrypt = (\<lambda>k t. if take (length k) t = k then Some (drop (length k) t) else None),
      json_dumps = sample_dumps,
      json_loads = sample_loads,
      can_open = (\<lambda>p. length (os_path_basename p) \<le> 255),
      can_write = (\<lambda>p d. True),
      py_repr = (\<lambda>j. ''[]''),
      STORAGE_DIR = ''/app/data/storage'',
      MAX_FILE_SIZE = 8\<rparr>"

definition empty_state :: state where
  "empty_state = \<lparr>db = Map.empty, files = Map.empty\<rparr>"


definition expired_state :: state where
  "expired_state =
     \<lparr>db = [''w1'' \<mapsto> \<lparr>whisp_id = ''w1'', encrypted_payload = ''hello'', is_file = False,
                        file_path = None, password_hash = None, expires_at = 500\<rparr>],
      files = Map.empty\<rparr>"

text \<open>A table with three file rows: a blob that was tampered with, and two rows without a key.\<close>

definition stored_state :: state where
  \<open>stored_state =
     \<lparr>db = [''w2'' \<mapsto> \<lparr>whisp_id = ''w2'',
                        encrypted_payload = ''{"filename": "notes.txt", "key": "k3y="}'',
                        is_file = True, file_path = Some ''/app/data/storage/w2_notes.txt.enc'',
                        password_hash = None, expires_at = 5000\<rparr>,
            ''w3'' \<mapsto> \<lparr>whisp_id = ''w3'',
                        encrypted_payload = ''{"filename": "report.pdf"}'',
                        is_file = True, file_path = Some ''/app/data/storage/w3_report.pdf.enc'',
                        password_hash = None, expires_at = 5000\<rparr>,
            ''w4'' \<mapsto> \<lparr>whisp_id = ''w4'',
                        encrypted_payload = ''old.bin'',
                        is_file = True, file_path = Some ''/app/data/storage/w4_old.bin'',
                        password_hash = None, expires_at = 5000\<rparr>],
      files = [''/app/data/storage/w2_notes.txt.enc'' \<mapsto> ''XXXXhello'',
               ''/app/data/storage/w3_report.pdf.enc'' \<mapsto> ''%PDF'',
               ''/app/data/storage/w4_old.bin'' \<mapsto> ''bytes'']\<rparr>\<close>

definition notes_upload :: upload where
  "notes_upload = \<lparr>filename = Some ''../../notes.txt'', content = ''hello''\<rparr>"

text \<open>An upload of nine bytes under a name of 250 bytes.\<close>

definition long_upload :: upload where
  "long_upload = \<lparr>filename = Some (replicate 250 (CHR ''a'')), content = ''123456789''\<rparr>"

text \<open>An upload whose display name will be \<^verbatim>\<open>omega_name\<close>.\<close>

definition omega_upload :: upload where
  "omega_upload = \<lparr>filename = Some ''notes.txt'', content = ''hello''\<rparr>"

text \<open>A table with one text row that has not expired.\<close>

definition live_state :: state where
  "live_state =
     \<lparr>db = [''w5'' \<mapsto> \<lparr>whisp_id = ''w5'', encrypted_payload = ''ciphertext'', is_file = False,
                        file_path = None, password_hash = None, expires_at = 5000\<rparr>],
      files = Map.empty\<rparr>"

section \<open>Properties\<close>

subsection \<open>Auxiliary facts\<close>

declare read_chunks.simps [simp del]

lemma read_chunks_iff:
  "read_chunks m rest t = (rest \<noteq> [] \<and> t + int (length rest) > m)"
proof (induction m rest t rule: read_chunks.induct)
  case (1 m rest t)
  show ?case
  proof (cases "rest = []")
    case True
    then show ?thesis by (simp add: read_chunks.simps [of m "[]" t])
  next
    case False
    then have ne: "take CHUNK_SIZE rest \<noteq> []" by (simp add: CHUNK_SIZE_def)
    show ?thesis
    proof (cases "t + int (length (take CHUNK_SIZE rest)) > m")
      case True
      then have "read_chunks m rest t" using ne by (simp add: read_chunks.simps [of m rest t] Let_def)
      moreover have "t + int (length rest) > m" using True by (simp add: min_def split: if_splits)
      ultimately show ?thesis using False by simp
    next
      case le: False
      have "read_chunks m rest t = read_chunks m (drop CHUNK_SIZE rest) (t + int (length (take CHUNK_SIZE rest)))"
        using ne le by (simp add: read_chunks.simps [of m rest t] Let_def)
      also have "\<dots> = (drop CHUNK_SIZE rest \<noteq> [] \<and> t + int (length (take CHUNK_SIZE rest)) + int (length (drop CHUNK_SIZE rest)) > m)"
        using "1.IH" [OF refl ne refl le] .
      also have "\<dots> = (rest \<noteq> [] \<and> t + int (length rest) > m)"
        using le False by (auto simp: min_def split: if_splits)
      finally show ?thesis .
    qed
  qed
qed

lemma cleanup_db:
  "db (cleanup_expired_whisps now s) k =
     (case db s k of None \<Rightarrow> None | Some w \<Rightarrow> if expires_at w < now then None else Some w)"
  by (simp add: cleanup_expired_whisps_def)

lemma cleanup_files: "files (cleanup_expired_whisps now s) = files s"
  by (simp add: cleanup_expired_whisps_def)

lemma write_upload_ok:
  "int (length data) \<le> MAX_FILE_SIZE E \<Longrightarrow> can_open E path \<Longrightarrow>
   can_write E path (fernet_encrypt E key data) \<Longrightarrow>
   write_upload E path key data fs = (None, fs(path \<mapsto> fernet_encrypt E key data))"
  by (auto simp: write_upload_def read_chunks_iff Let_def)

lemma write_upload_too_large:
  "int (length data) > MAX_FILE_SIZE E \<Longrightarrow> can_open E path \<Longrightarrow>
   write_upload E path key data fs =
     (Some (HTTPException 413), if data = [] then fs(path \<mapsto> []) else fs(path := None))"
  by (auto simp: write_upload_def read_chunks_iff Let_def)

lemma write_upload_not_opened:
  "\<not> can_open E path \<Longrightarrow> write_upload E path key data fs = (Some OSError, fs)"
  by (simp add: write_upload_def)

lemma write_upload_not_written:
  "int (length data) \<le> MAX_FILE_SIZE E \<Longrightarrow> can_open E path \<Longrightarrow>
   \<not> can_write E path (fernet_encrypt E key data) \<Longrightarrow>
   write_upload E path key data fs = (Some OSError, fs(path \<mapsto> []))"
  by (auto simp: write_upload_def read_chunks_iff Let_def)

lemma upload_failed_413:
  "upload_failed path (HTTPException 413) fs = (HTTPException 413, fs(path := None))"
  by (auto simp: upload_failed_def)

lemma upload_failed_os_error:
  "upload_failed path OSError fs = (HTTPException 500, fs(path := None))"
  by (auto simp: upload_failed_def)

lemma create_whisp_bad_ttl:
  "ttl < 1 \<or> ttl > 10080 \<Longrightarrow>
   create_whisp E now wid key payload ttl password file s = (Inl (HTTPException 400), s, [])"
  by (simp add: create_whisp_def)

lemma create_whisp_text:
  assumes "1 \<le> ttl" "ttl \<le> 10080" "db s wid = None"
  shows "create_whisp E now wid key payload ttl password None s =
    (Inr \<lparr>read_id = wid, read_payload = payload, read_is_file = False,
          read_expires_at = now + timedelta_minutes ttl\<rparr>,
     s\<lparr>db := (db s)(wid \<mapsto>
        \<lparr>whisp_id = wid, encrypted_payload = payload, is_file = False, file_path = None,
         password_hash = (if str_truthy password then Some (get_password_hash E (the password)) else None),
         expires_at = now + timedelta_minutes ttl\<rparr>)\<rparr>,
     [CleanupExpired])"
  using assms by (simp add: create_whisp_def model_validate_def Let_def)

lemma create_whisp_file:
  assumes "1 \<le> ttl" "ttl \<le> 10080" "db s wid = None"
    and "int (length (content f)) \<le> MAX_FILE_SIZE E"
    and "can_open E (blob_path E wid f)"
    and "can_write E (blob_path E wid f) (fernet_encrypt E key (content f))"
  shows "create_whisp E now wid key payload ttl password (Some f) s =
    (Inr \<lparr>read_id = wid,
          read_payload = json_dumps E (JObj [(''filename'', JStr payload), (''key'', JStr key)]),
          read_is_file = True,
          read_expires_at = now + timedelta_minutes ttl\<rparr>,
     s\<lparr>files := (files s)(blob_path E wid f \<mapsto> fernet_encrypt E key (content f)),
       db := (db s)(wid \<mapsto>
        \<lparr>whisp_id = wid,
         encrypted_payload = json_dumps E (JObj [(''filename'', JStr payload), (''key'', JStr key)]),
         is_file = True, file_path = Some (blob_path E wid f),
         password_hash = (if str_truthy password then Some (get_password_hash E (the password)) else None),
         expires_at = now + timedelta_minutes ttl\<rparr>)\<rparr>,
     [CleanupExpired])"
  using assms by (simp add: create_whisp_def model_validate_def write_upload_ok Let_def)

lemma create_whisp_too_large:
  assumes "1 \<le> ttl" "ttl \<le> 10080"
    and "int (length (content f)) > MAX_FILE_SIZE E"
    and "can_open E (blob_path E wid f)"
  shows "create_whisp E now wid key payload ttl password (Some f) s =
    (Inl (HTTPException 413), s\<lparr>files := (files s)(blob_path E wid f := None)\<rparr>, [])"
  using assms by (simp add: create_whisp_def write_upload_too_large upload_failed_413 Let_def)

lemma create_whisp_not_opened:
  assumes "1 \<le> ttl" "ttl \<le> 10080"
    and "\<not> can_open E (blob_path E wid f)"
  shows "create_whisp E now wid key payload ttl password (Some f) s =
    (Inl (HTTPException 500), s\<lparr>files := (files s)(blob_path E wid f := None)\<rparr>, [])"
  using assms by (simp add: create_whisp_def write_upload_not_opened upload_failed_os_error Let_def)

lemma create_whisp_not_written:
  assumes "1 \<le> ttl" "ttl \<le> 10080"
    and "int (length (content f)) \<le> MAX_FILE_SIZE E"
    and "can_open E (blob_path E wid f)"
    and "\<not> can_write E (blob_path E wid f) (fernet_encrypt E key (content f))"
  shows "create_whisp E now wid key payload ttl password (Some f) s =
    (Inl (HTTPException 500), s\<lparr>files := (files s)(blob_path E wid f := None)\<rparr>, [])"
  using assms by (simp add: create_whisp_def write_upload_not_written upload_failed_os_error Let_def)

lemma get_whisp_absent:
  "db s wid = None \<Longrightarrow> get_whisp E now wid password s = (Inl (HTTPException 404), s)"
  by (simp add: get_whisp_def)

lemma get_whisp_file_absent:
  "db s wid = None \<Longrightarrow> get_whisp_file E now wid password s = (Inl (HTTPException 404), s, [])"
  by (simp add: get_whisp_file_def)

lemma get_whisp_expired:
  "db s wid = Some w \<Longrightarrow> expires_at w < now \<Longrightarrow>
   get_whisp E now wid password s = (Inl (HTTPException 404), s)"
  by (simp add: get_whisp_def)

lemma get_whisp_file_expired:
  "db s wid = Some w \<Longrightarrow> expires_at w < now \<Longrightarrow>
   get_whisp_file E now wid password s = (Inl (HTTPException 404), s, [])"
  by (simp add: get_whisp_file_def)

lemma get_whisp_refused:
  "db s wid = Some w \<Longrightarrow> \<not> expires_at w < now \<Longrightarrow> password_refused E w password \<Longrightarrow>
   get_whisp E now wid password s = (Inl (HTTPException 401), s)"
  by (simp add: get_whisp_def)

lemma get_whisp_file_refused:
  "db s wid = Some w \<Longrightarrow> \<not> expires_at w < now \<Longrightarrow> is_file w \<Longrightarrow>
   file_path w = Some p \<Longrightarrow> p \<noteq> [] \<Longrightarrow> files s p = Some blob \<Longrightarrow>
   password_refused E w password \<Longrightarrow>
   get_whisp_file E now wid password s = (Inl (HTTPException 401), s, [])"
  by (simp add: get_whisp_file_def)

lemma get_whisp_text:
  "db s wid = Some w \<Longrightarrow> \<not> expires_at w < now \<Longrightarrow> \<not> password_refused E w password \<Longrightarrow>
   \<not> is_file w \<Longrightarrow> file_path w = None \<Longrightarrow>
   get_whisp E now wid password s = (Inr (model_validate w), s\<lparr>db := (db s)(wid := None)\<rparr>)"
  by (simp add: get_whisp_def)

lemma get_whisp_keeps_file:
  "db s wid = Some w \<Longrightarrow> \<not> expires_at w < now \<Longrightarrow> \<not> password_refused E w password \<Longrightarrow>
   is_file w \<Longrightarrow>
   get_whisp E now wid password s = (Inr (model_validate w), s)"
  by (simp add: get_whisp_def)

lemma get_whisp_file_served:
  "db s wid = Some w \<Longrightarrow> \<not> expires_at w < now \<Longrightarrow> is_file w \<Longrightarrow>
   file_path w = Some p \<Longrightarrow> p \<noteq> [] \<Longrightarrow> files s p = Some blob \<Longrightarrow>
   \<not> password_refused E w password \<Longrightarrow>
   read_content E (fst (read_metadata E (encrypted_payload w))) blob = Inr c \<Longrightarrow>
   filename_latin1 E (snd (read_metadata E (encrypted_payload w))) \<Longrightarrow>
   get_whisp_file E now wid password s =
     (Inr \<lparr>resp_content = c, resp_filename = snd (read_metadata E (encrypted_payload w))\<rparr>,
      s\<lparr>db := (db s)(wid := None)\<rparr>, [DeleteFile p])"
  by (simp add: get_whisp_file_def make_response_def Let_def)

lemma get_whisp_file_not_encoded:
  "db s wid = Some w \<Longrightarrow> \<not> expires_at w < now \<Longrightarrow> is_file w \<Longrightarrow>
   file_path w = Some p \<Longrightarrow> p \<noteq> [] \<Longrightarrow> files s p = Some blob \<Longrightarrow>
   \<not> password_refused E w password \<Longrightarrow>
   read_content E (fst (read_metadata E (encrypted_payload w))) blob = Inr c \<Longrightarrow>
   \<not> filename_latin1 E (snd (read_metadata E (encrypted_payload w))) \<Longrightarrow>
   get_whisp_file E now wid password s =
     (Inl UnicodeEncodeError, s\<lparr>db := (db s)(wid := None)\<rparr>, [])"
  by (simp add: get_whisp_file_def make_response_def Let_def)

lemma get_whisp_file_not_a_file:
  "db s wid = Some w \<Longrightarrow> \<not> is_file w \<Longrightarrow>
   get_whisp_file E now wid password s = (Inl (HTTPException 404), s, [])"
  by (simp add: get_whisp_file_def)

lemma get_whisp_select_rest:
  "get_whisp E now wid password s = get_whisp_rest E now wid password (select_whisp s wid) s"
  by (simp add: get_whisp_def get_whisp_rest_def select_whisp_def)

lemma get_whisp_file_select_rest:
  "get_whisp_file E now wid password s
     = get_whisp_file_rest E now wid password (select_whisp s wid) s"
  by (simp add: get_whisp_file_def get_whisp_file_rest_def select_whisp_def)

lemma get_whisp_file_raises:
  "db s wid = Some w \<Longrightarrow> \<not> expires_at w < now \<Longrightarrow> is_file w \<Longrightarrow>
   file_path w = Some p \<Longrightarrow> p \<noteq> [] \<Longrightarrow> files s p = Some blob \<Longrightarrow>
   \<not> password_refused E w password \<Longrightarrow>
   read_content E (fst (read_metadata E (encrypted_payload w))) blob = Inl e \<Longrightarrow>
   get_whisp_file E now wid password s = (Inl e, s, [])"
  by (simp add: get_whisp_file_def Let_def)

lemma os_path_join_nonempty: "b \<noteq> [] \<Longrightarrow> os_path_join a b \<noteq> []"
  by (simp add: os_path_join_def)

lemma blob_path_nonempty: "blob_path E wid f \<noteq> []"
  by (simp add: blob_path_def os_path_join_nonempty)

lemma cleanup_keeps:
  "db s wid = Some w \<Longrightarrow> \<not> expires_at w < tb \<Longrightarrow> db (cleanup_expired_whisps tb s) wid = Some w"
  by (simp add: cleanup_db)

lemma request_done_create_text:
  assumes "1 \<le> ttl" "ttl \<le> 10080" "db s wid = None" "tb \<le> now + timedelta_minutes ttl"
  shows "db (request_done tb (create_whisp E now wid key payload ttl password None s)) wid =
     Some \<lparr>whisp_id = wid, encrypted_payload = payload, is_file = False, file_path = None,
         password_hash = (if str_truthy password then Some (get_password_hash E (the password)) else None),
         expires_at = now + timedelta_minutes ttl\<rparr>"
  using assms by (simp add: create_whisp_text request_done_def cleanup_db)

lemma request_done_create_file:
  assumes "1 \<le> ttl" "ttl \<le> 10080" "db s wid = None" "tb \<le> now + timedelta_minutes ttl"
    and "int (length (content f)) \<le> MAX_FILE_SIZE E"
    and "can_open E (blob_path E wid f)"
    and "can_write E (blob_path E wid f) (fernet_encrypt E key (content f))"
  shows "db (request_done tb (create_whisp E now wid key payload ttl password (Some f) s)) wid =
     Some \<lparr>whisp_id = wid,
         encrypted_payload = json_dumps E (JObj [(''filename'', JStr payload), (''key'', JStr key)]),
         is_file = True, file_path = Some (blob_path E wid f),
         password_hash = (if str_truthy password then Some (get_password_hash E (the password)) else None),
         expires_at = now + timedelta_minutes ttl\<rparr>"
    and "files (request_done tb (create_whisp E now wid key payload ttl password (Some f) s))
           (blob_path E wid f) = Some (fernet_encrypt E key (content f))"
  using assms by (simp_all add: create_whisp_file request_done_def cleanup_db cleanup_files)

lemma accepted_password:
  assumes "str_truthy password \<Longrightarrow>
      supplied = password \<and> verify_password E (the password) (get_password_hash E (the password))"
  shows "\<not> password_refused E
     \<lparr>whisp_id = wid, encrypted_payload = pl, is_file = b, file_path = fp,
      password_hash = (if str_truthy password then Some (get_password_hash E (the password)) else None),
      expires_at = ex\<rparr> supplied"
  using assms by (auto simp: password_refused_def)

lemma get_whisp_gone:
  "db s2 wid = None \<Longrightarrow> \<forall>t pw. get_whisp E t wid pw s2 = (Inl (HTTPException 404), s2)"
  by (simp add: get_whisp_absent)

lemma get_whisp_file_gone:
  "db s2 wid = None \<Longrightarrow> get_whisp_file E t wid pw s2 = (Inl (HTTPException 404), s2, [])"
  by (simp add: get_whisp_file_absent)

lemma delete_file_db: "db (delete_file p s) = db s"
  by (simp add: delete_file_def)

lemma read_metadata_created:
  assumes "json_loads E (json_dumps E (JObj [(''filename'', JStr payload), (''key'', JStr key)]))
      = Some (JObj [(''filename'', JStr payload), (''key'', JStr key)])"
  shows "read_metadata E (json_dumps E (JObj [(''filename'', JStr payload), (''key'', JStr key)]))
      = (JStr key, JStr payload)"
  using assms by (simp add: read_metadata_def dict_get_def)

lemma read_content_decrypts:
  "k \<noteq> [] \<Longrightarrow> fernet_key_ok E k \<Longrightarrow> fernet_decrypt E k blob = Some c \<Longrightarrow>
   read_content E (JStr k) blob = Inr c"
  by (simp add: read_content_def)

lemma read_content_invalid_token:
  "k \<noteq> [] \<Longrightarrow> fernet_key_ok E k \<Longrightarrow> fernet_decrypt E k blob = None \<Longrightarrow>
   read_content E (JStr k) blob = Inl InvalidToken"
  by (simp add: read_content_def)

lemma funpow_fixed: "g x = x \<Longrightarrow> (g ^^ n) x = x"
  by (induction n) simp_all

lemma created_file_row:
  assumes ttl: "1 \<le> ttl" "ttl \<le> 10080" and fresh: "db s wid = None"
    and stored: "int (length (content f)) \<le> MAX_FILE_SIZE E" "can_open E (blob_path E wid f)"
      "can_write E (blob_path E wid f) (fernet_encrypt E key (content f))"
    and json: "json_loads E (json_dumps E (JObj [(''filename'', JStr payload), (''key'', JStr key)]))
      = Some (JObj [(''filename'', JStr payload), (''key'', JStr key)])"
    and key: "key \<noteq> []" "fernet_key_ok E key"
    and fernet: "fernet_decrypt E key (fernet_encrypt E key (content f)) = Some (content f)"
    and tb: "tb \<le> now + timedelta_minutes ttl"
    and sb: "sb = request_done tb (create_whisp E now wid key payload ttl password (Some f) s)"
    and w: "w = \<lparr>whisp_id = wid,
         encrypted_payload = json_dumps E (JObj [(''filename'', JStr payload), (''key'', JStr key)]),
         is_file = True, file_path = Some (blob_path E wid f),
         password_hash = (if str_truthy password then Some (get_password_hash E (the password)) else None),
         expires_at = now + timedelta_minutes ttl\<rparr>"
  shows "db sb wid = Some w"
    and "files sb (blob_path E wid f) = Some (fernet_encrypt E key (content f))"
    and "read_content E (fst (read_metadata E (encrypted_payload w)))
      (fernet_encrypt E key (content f)) = Inr (content f)"
    and "snd (read_metadata E (encrypted_payload w)) = JStr payload"
proof -
  show "db sb wid = Some w"
    unfolding sb w using ttl fresh tb stored by (rule request_done_create_file(1))
  show "files sb (blob_path E wid f) = Some (fernet_encrypt E key (content f))"
    unfolding sb using ttl fresh tb stored by (rule request_done_create_file(2))
  have meta: "read_metadata E (encrypted_payload w) = (JStr key, JStr payload)"
    unfolding w using json by (simp add: read_metadata_created)
  show "read_content E (fst (read_metadata E (encrypted_payload w)))
      (fernet_encrypt E key (content f)) = Inr (content f)"
    unfolding meta using key fernet by (simp add: read_content_decrypts)
  show "snd (read_metadata E (encrypted_payload w)) = JStr payload"
    unfolding meta by simp
qed

lemma file_download:
  assumes ttl: "1 \<le> ttl" "ttl \<le> 10080" and fresh: "db s wid = None"
    and stored: "int (length (content f)) \<le> MAX_FILE_SIZE E" "can_open E (blob_path E wid f)"
      "can_write E (blob_path E wid f) (fernet_encrypt E key (content f))"
    and json: "json_loads E (json_dumps E (JObj [(''filename'', JStr payload), (''key'', JStr key)]))
      = Some (JObj [(''filename'', JStr payload), (''key'', JStr key)])"
    and key: "key \<noteq> []" "fernet_key_ok E key"
    and fernet: "fernet_decrypt E key (fernet_encrypt E key (content f)) = Some (content f)"
    and tb: "tb \<le> now + timedelta_minutes ttl"
    and sb: "sb = request_done tb (create_whisp E now wid key payload ttl password (Some f) s)"
    and pw: "str_truthy password \<Longrightarrow>
      supplied = password \<and> verify_password E (the password) (get_password_hash E (the password))"
    and t2: "t2 \<le> now + timedelta_minutes ttl"
  shows "latin1 payload \<Longrightarrow> get_whisp_file E t2 wid supplied sb =
     (Inr \<lparr>resp_content = content f, resp_filename = JStr payload\<rparr>,
      sb\<lparr>db := (db sb)(wid := None)\<rparr>, [DeleteFile (blob_path E wid f)])"
    and "\<not> latin1 payload \<Longrightarrow> get_whisp_file E t2 wid supplied sb =
     (Inl UnicodeEncodeError, sb\<lparr>db := (db sb)(wid := None)\<rparr>, [])"
proof -
  let ?w = "\<lparr>whisp_id = wid,
         encrypted_payload = json_dumps E (JObj [(''filename'', JStr payload), (''key'', JStr key)]),
         is_file = True, file_path = Some (blob_path E wid f),
         password_hash = (if str_truthy password then Some (get_password_hash E (the password)) else None),
         expires_at = now + timedelta_minutes ttl\<rparr>"
  note row = created_file_row [OF ttl fresh stored json key fernet tb sb refl]
  have ok: "\<not> password_refused E ?w supplied"
    using pw by (rule accepted_password)
  have live: "\<not> expires_at ?w < t2" using t2 by simp
  have isf: "is_file ?w" "file_path ?w = Some (blob_path E wid f)" by simp_all
  {
    assume "latin1 payload"
    then have enc: "filename_latin1 E (snd (read_metadata E (encrypted_payload ?w)))"
      unfolding row(4) by (simp add: filename_latin1_def)
    have "get_whisp_file E t2 wid supplied sb =
       (Inr \<lparr>resp_content = content f, resp_filename = snd (read_metadata E (encrypted_payload ?w))\<rparr>,
        sb\<lparr>db := (db sb)(wid := None)\<rparr>, [DeleteFile (blob_path E wid f)])"
      using row(1) live isf blob_path_nonempty row(2) ok row(3) enc
      by (rule get_whisp_file_served)
    then show "get_whisp_file E t2 wid supplied sb =
       (Inr \<lparr>resp_content = content f, resp_filename = JStr payload\<rparr>,
        sb\<lparr>db := (db sb)(wid := None)\<rparr>, [DeleteFile (blob_path E wid f)])"
      by (simp only: row(4))
  next
    assume "\<not> latin1 payload"
    then have enc: "\<not> filename_latin1 E (snd (read_metadata E (encrypted_payload ?w)))"
      unfolding row(4) by (simp add: filename_latin1_def)
    show "get_whisp_file E t2 wid supplied sb =
       (Inl UnicodeEncodeError, sb\<lparr>db := (db sb)(wid := None)\<rparr>, [])"
      using row(1) live isf blob_path_nonempty row(2) ok row(3) enc
      by (rule get_whisp_file_not_encoded)
  }
qed

lemma metadata_read_keeps_file:
  assumes ttl: "1 \<le> ttl" "ttl \<le> 10080" and fresh: "db s wid = None"
    and stored: "int (length (content f)) \<le> MAX_FILE_SIZE E" "can_open E (blob_path E wid f)"
      "can_write E (blob_path E wid f) (fernet_encrypt E key (content f))"
    and tb: "tb \<le> now + timedelta_minutes ttl"
    and sb: "sb = request_done tb (create_whisp E now wid key payload ttl password (Some f) s)"
    and pw: "str_truthy password \<Longrightarrow>
      supplied = password \<and> verify_password E (the password) (get_password_hash E (the password))"
    and t1: "t1 \<le> now + timedelta_minutes ttl"
  shows "get_whisp E t1 wid supplied sb =
     (Inr \<lparr>read_id = wid,
           read_payload = json_dumps E (JObj [(''filename'', JStr payload), (''key'', JStr key)]),
           read_is_file = True, read_expires_at = now + timedelta_minutes ttl\<rparr>, sb)"
proof -
  let ?w = "\<lparr>whisp_id = wid,
         encrypted_payload = json_dumps E (JObj [(''filename'', JStr payload), (''key'', JStr key)]),
         is_file = True, file_path = Some (blob_path E wid f),
         password_hash = (if str_truthy password then Some (get_password_hash E (the password)) else None),
         expires_at = now + timedelta_minutes ttl\<rparr>"
  have row: "db sb wid = Some ?w"
    unfolding sb using ttl fresh tb stored by (rule request_done_create_file(1))
  have ok: "\<not> password_refused E ?w supplied"
    using pw by (rule accepted_password)
  have "get_whisp E t1 wid supplied sb = (Inr (model_validate ?w), sb)"
    using row _ ok by (rule get_whisp_keeps_file) (use t1 in simp_all)
  then show ?thesis by (simp add: model_validate_def)
qed

lemma wrong_password_refused:
  assumes "P \<noteq> []" "get_password_hash E P \<noteq> []"
    and "\<not> str_truthy bad \<or> \<not> verify_password E (the bad) (get_password_hash E P)"
  shows "password_refused E
     \<lparr>whisp_id = wid, encrypted_payload = pl, is_file = b, file_path = fp,
      password_hash = (if str_truthy (Some P) then Some (get_password_hash E (the (Some P))) else None),
      expires_at = ex\<rparr> bad"
  using assms by (auto simp: password_refused_def)

lemma basename_no_slash: "CHR ''/'' \<notin> set (os_path_basename p)"
proof -
  have "\<forall>c \<in> set (takeWhile (\<lambda>c. c \<noteq> CHR ''/'') (rev p)). c \<noteq> CHR ''/''"
    by (auto dest: set_takeWhileD)
  then show ?thesis by (auto simp: os_path_basename_def)
qed

lemma basename_suffix:
  "\<exists>d. p = d @ os_path_basename p \<and> (d = [] \<or> last d = CHR ''/'')"
proof -
  let ?P = "\<lambda>c. c \<noteq> CHR ''/''"
  let ?d = "rev (dropWhile ?P (rev p))"
  have "p = rev (takeWhile ?P (rev p) @ dropWhile ?P (rev p))"
    by (simp only: takeWhile_dropWhile_id rev_rev_ident)
  then have split: "p = ?d @ os_path_basename p"
    by (simp only: rev_append os_path_basename_def)
  have "?d = [] \<or> last ?d = CHR ''/''"
  proof (cases "dropWhile ?P (rev p) = []")
    case True
    then show ?thesis by simp
  next
    case False
    then have "\<not> ?P (hd (dropWhile ?P (rev p)))" by (rule hd_dropWhile)
    with False show ?thesis by (simp add: last_rev)
  qed
  with split show ?thesis by blast
qed

lemma basename_of_joined:
  assumes "CHR ''/'' \<notin> set name" and "d = [] \<or> last d = CHR ''/''"
  shows "os_path_basename (d @ name) = name"
proof -
  have tw: "takeWhile (\<lambda>c. c \<noteq> CHR ''/'') (rev d) = []"
  proof (cases "d = []")
    case True
    then show ?thesis by simp
  next
    case False
    with assms(2) have "hd (rev d) = CHR ''/''" by (simp add: hd_rev)
    moreover from False have "rev d \<noteq> []" by simp
    ultimately show ?thesis by (cases "rev d") simp_all
  qed
  have "takeWhile (\<lambda>c. c \<noteq> CHR ''/'') (rev name @ rev d)
      = rev name @ takeWhile (\<lambda>c. c \<noteq> CHR ''/'') (rev d)"
    by (rule takeWhile_append2) (use assms(1) in auto)
  then show ?thesis by (simp add: os_path_basename_def tw)
qed

lemma join_relative:
  assumes "b \<noteq> []" and "hd b \<noteq> CHR ''/''"
  shows "os_path_join a b = (if a = [] \<or> last a = CHR ''/'' then a else a @ ''/'') @ b"
  using assms by (simp add: os_path_join_def)

lemma basename_plain: "CHR ''/'' \<notin> set p \<Longrightarrow> os_path_basename p = p"
  using basename_of_joined [of p "[]"] by simp

lemma sample_facts:
  "db empty_state ''w1'' = None"
  "int (length (content notes_upload)) \<le> MAX_FILE_SIZE sample_env"
  "fernet_key_ok sample_env ''k3y=''"
  "fernet_decrypt sample_env ''k3y='' (fernet_encrypt sample_env ''k3y='' (content notes_upload))
     = Some (content notes_upload)"
  "json_loads sample_env (json_dumps sample_env (JObj [(''filename'', JStr ''notes.txt''), (''key'', JStr ''k3y='')]))
     = Some (JObj [(''filename'', JStr ''notes.txt''), (''key'', JStr ''k3y='')])"
  "blob_path sample_env ''w1'' notes_upload = ''/app/data/storage/w1_notes.txt.enc''"
  "can_open sample_env ''/app/data/storage/w1_notes.txt.enc''"
  "can_write sample_env p d"
  "json_loads sample_env (json_dumps sample_env (JObj [(''filename'', JStr omega_name), (''key'', JStr ''k3y='')]))
     = Some (JObj [(''filename'', JStr omega_name), (''key'', JStr ''k3y='')])"
  by (simp_all add: empty_state_def notes_upload_def sample_env_def sample_dumps_def sample_loads_def
      omega_name_def
      dict_get_def blob_path_def safe_filename_def os_path_join_def os_path_basename_def)

lemma notes_content: "content notes_upload = ''hello''"
  by (simp add: notes_upload_def)

lemma blob_path_basename:
  assumes "CHR ''/'' \<notin> set wid"
  shows "os_path_basename (blob_path E wid f) = wid @ ''_'' @ safe_filename f @ ''.enc''"
proof -
  let ?name = "wid @ ''_'' @ safe_filename f @ ''.enc''"
  let ?dir = "if STORAGE_DIR E = [] \<or> last (STORAGE_DIR E) = CHR ''/''
                 then STORAGE_DIR E else STORAGE_DIR E @ ''/''"
  have noslash: "CHR ''/'' \<notin> set ?name"
    using assms by (simp add: safe_filename_def basename_no_slash)
  have ne: "?name \<noteq> []" by simp
  have "hd ?name \<in> set ?name" using ne by (rule hd_in_set)
  with noslash have hd: "hd ?name \<noteq> CHR ''/''" by metis
  have path: "blob_path E wid f = ?dir @ ?name"
    unfolding blob_path_def using ne hd by (rule join_relative)
  have dirend: "?dir = [] \<or> last ?dir = CHR ''/''" by simp
  show ?thesis unfolding path using noslash dirend by (rule basename_of_joined)
qed

lemma long_upload_facts:
  "\<not> can_open sample_env (blob_path sample_env ''w1'' long_upload)"
  "int (length (content long_upload)) > MAX_FILE_SIZE sample_env"
proof -
  have "safe_filename long_upload = replicate 250 (CHR ''a'')"
    by (simp add: safe_filename_def long_upload_def basename_plain)
  then have "length (os_path_basename (blob_path sample_env ''w1'' long_upload)) = 257"
    by (simp add: blob_path_basename)
  then show "\<not> can_open sample_env (blob_path sample_env ''w1'' long_upload)"
    by (simp add: sample_env_def)
  show "int (length (content long_upload)) > MAX_FILE_SIZE sample_env"
    by (simp add: sample_env_def long_upload_def)
qed

lemma omega_facts:
  "\<not> latin1 omega_name"
  "int (length (content omega_upload)) \<le> MAX_FILE_SIZE sample_env"
  "blob_path sample_env ''w1'' omega_upload = ''/app/data/storage/w1_notes.txt.enc''"
  "fernet_decrypt sample_env ''k3y='' (fernet_encrypt sample_env ''k3y='' (content omega_upload))
     = Some (content omega_upload)"
  "fernet_encrypt sample_env ''k3y='' (content omega_upload) = ''k3y=hello''"
  by (simp_all add: latin1_def omega_name_def omega_upload_def sample_env_def
      blob_path_def safe_filename_def os_path_join_def os_path_basename_def)

subsection \<open>Two fetches of one secret\<close>

text \<open>
  Claim C1. \<^verbatim>\<open>get_whisp\<close> is its \<^verbatim>\<open>SELECT\<close> followed by \<^verbatim>\<open>get_whisp_rest\<close>, and
  \<^verbatim>\<open>get_whisp_file\<close> likewise. Between the two the handler is suspended and another
  request can run. When two callers have both read the row of a live secret before either
  of them goes on, the first deletes the row and succeeds, and the second, working on the
  row it has read, succeeds as well: both receive the payload of the text secret, both
  receive the content of the file secret. Nothing in the handlers makes the second caller
  observe the deletion, so the claim does not hold of this code.
\<close>

theorem concurrent_fetches_both_succeed:
  assumes "db s wid = Some w"
    and "\<not> expires_at w < nowA" and "\<not> expires_at w < nowB"
    and "\<not> password_refused E w pwA" and "\<not> password_refused E w pwB"
  shows "get_whisp E nowA wid pwA s = get_whisp_rest E nowA wid pwA (select_whisp s wid) s \<and>
     get_whisp_file E nowA wid pwA s = get_whisp_file_rest E nowA wid pwA (select_whisp s wid) s \<and>
     (\<not> is_file w \<longrightarrow>
       (case get_whisp_rest E nowA wid pwA (select_whisp s wid) s of
          (rA, s1) \<Rightarrow>
            (case get_whisp_rest E nowB wid pwB (select_whisp s wid) s1 of
               (rB, s2) \<Rightarrow>
                 rA = Inr (model_validate w) \<and> rB = Inr (model_validate w) \<and>
                 db s1 wid = None \<and> db s2 wid = None))) \<and>
     (is_file w \<and> file_path w = Some p \<and> p \<noteq> [] \<and> files s p = Some blob \<and>
      read_content E (fst (read_metadata E (encrypted_payload w))) blob = Inr c \<and>
      filename_latin1 E (snd (read_metadata E (encrypted_payload w))) \<longrightarrow>
       (case get_whisp_file_rest E nowA wid pwA (select_whisp s wid) s of
          (rA, s1, tasksA) \<Rightarrow>
            (case get_whisp_file_rest E nowB wid pwB (select_whisp s wid) s1 of
               (rB, s2, tasksB) \<Rightarrow>
                 rA = Inr \<lparr>resp_content = c,
                           resp_filename = snd (read_metadata E (encrypted_payload w))\<rparr> \<and>
                 rB = rA \<and> db s1 wid = None \<and> db s2 wid = None)))"
proof (intro conjI impI)
  show "get_whisp E nowA wid pwA s = get_whisp_rest E nowA wid pwA (select_whisp s wid) s"
    by (rule get_whisp_select_rest)
  show "get_whisp_file E nowA wid pwA s = get_whisp_file_rest E nowA wid pwA (select_whisp s wid) s"
    by (rule get_whisp_file_select_rest)
next
  assume "\<not> is_file w"
  then show "case get_whisp_rest E nowA wid pwA (select_whisp s wid) s of
          (rA, s1) \<Rightarrow>
            (case get_whisp_rest E nowB wid pwB (select_whisp s wid) s1 of
               (rB, s2) \<Rightarrow>
                 rA = Inr (model_validate w) \<and> rB = Inr (model_validate w) \<and>
                 db s1 wid = None \<and> db s2 wid = None)"
    using assms by (simp add: get_whisp_rest_def select_whisp_def Let_def)
next
  assume f: "is_file w \<and> file_path w = Some p \<and> p \<noteq> [] \<and> files s p = Some blob \<and>
      read_content E (fst (read_metadata E (encrypted_payload w))) blob = Inr c \<and>
      filename_latin1 E (snd (read_metadata E (encrypted_payload w)))"
  then show "case get_whisp_file_rest E nowA wid pwA (select_whisp s wid) s of
          (rA, s1, tasksA) \<Rightarrow>
            (case get_whisp_file_rest E nowB wid pwB (select_whisp s wid) s1 of
               (rB, s2, tasksB) \<Rightarrow>
                 rA = Inr \<lparr>resp_content = c,
                           resp_filename = snd (read_metadata E (encrypted_payload w))\<rparr> \<and>
                 rB = rA \<and> db s1 wid = None \<and> db s2 wid = None)"
    using assms by (simp add: get_whisp_file_rest_def select_whisp_def make_response_def Let_def)
qed

theorem concurrent_fetches_both_succeed_witness:
  "case get_whisp_rest sample_env 1000 ''w5'' None (select_whisp live_state ''w5'') live_state of
     (rA, s1) \<Rightarrow>
       (case get_whisp_rest sample_env 1000 ''w5'' None (select_whisp live_state ''w5'') s1 of
          (rB, s2) \<Rightarrow>
            rA = Inr \<lparr>read_id = ''w5'', read_payload = ''ciphertext'', read_is_file = False,
                      read_expires_at = 5000\<rparr> \<and>
            rB = rA)"
proof -
  let ?w = "\<lparr>whisp_id = ''w5'', encrypted_payload = ''ciphertext'', is_file = False,
             file_path = None, password_hash = None, expires_at = 5000\<rparr>"
  have row: "db live_state ''w5'' = Some ?w"
    by (simp add: live_state_def)
  have open_gate: "\<not> password_refused sample_env ?w None"
    by (simp add: password_refused_def)
  show ?thesis
    using concurrent_fetches_both_succeed [OF row _ _ open_gate open_gate, of 1000 1000]
    by (simp add: model_validate_def split: prod.splits)
qed

subsection \<open>Time to live\<close>

text \<open>
  Claim C4, as amended. \<^verbatim>\<open>create_whisp\<close> answers 400 exactly when \<^verbatim>\<open>ttl_minutes\<close> is
  below 1 or above 10080, and then it leaves the table and the disk as they were and
  schedules nothing. For every \<^verbatim>\<open>ttl_minutes\<close> from 1 to 10080 and a fresh id it succeeds
  when the request has no file, or has a file that is within the size limit and that the
  disk accepts; the expiry it returns and stores is the time of the call plus
  \<^verbatim>\<open>ttl_minutes\<close> times 60 000 000 microseconds.
\<close>

theorem create_whisp_ttl:
  "(fst (create_whisp E now wid key payload ttl password file s) = Inl (HTTPException 400)
      \<longleftrightarrow> ttl < 1 \<or> ttl > 10080) \<and>
   (ttl < 1 \<or> ttl > 10080 \<longrightarrow>
      create_whisp E now wid key payload ttl password file s = (Inl (HTTPException 400), s, [])) \<and>
   (1 \<le> ttl \<and> ttl \<le> 10080 \<and> db s wid = None \<and>
    (\<forall>f. file = Some f \<longrightarrow> int (length (content f)) \<le> MAX_FILE_SIZE E \<and>
        can_open E (blob_path E wid f) \<and>
        can_write E (blob_path E wid f) (fernet_encrypt E key (content f))) \<longrightarrow>
      (\<exists>r s'. create_whisp E now wid key payload ttl password file s = (Inr r, s', [CleanupExpired]) \<and>
         read_id r = wid \<and>
         read_expires_at r = now + ttl * 60000000 \<and>
         map_option expires_at (db s' wid) = Some (now + ttl * 60000000)))"
proof (intro conjI impI)
  show "(fst (create_whisp E now wid key payload ttl password file s) = Inl (HTTPException 400))
      = (ttl < 1 \<or> ttl > 10080)"
  proof (cases "ttl < 1 \<or> ttl > 10080")
    case True
    then show ?thesis by (simp add: create_whisp_bad_ttl)
  next
    case False
    then have "fst (create_whisp E now wid key payload ttl password file s) \<noteq> Inl (HTTPException 400)"
      by (auto simp: create_whisp_def Let_def write_upload_def upload_failed_def
               split: option.splits prod.splits if_splits error.splits)
    with False show ?thesis by simp
  qed
next
  assume "ttl < 1 \<or> ttl > 10080"
  then show "create_whisp E now wid key payload ttl password file s = (Inl (HTTPException 400), s, [])"
    by (rule create_whisp_bad_ttl)
next
  assume a: "1 \<le> ttl \<and> ttl \<le> 10080 \<and> db s wid = None \<and>
    (\<forall>f. file = Some f \<longrightarrow> int (length (content f)) \<le> MAX_FILE_SIZE E \<and>
        can_open E (blob_path E wid f) \<and>
        can_write E (blob_path E wid f) (fernet_encrypt E key (content f)))"
  show "\<exists>r s'. create_whisp E now wid key payload ttl password file s = (Inr r, s', [CleanupExpired]) \<and>
         read_id r = wid \<and>
         read_expires_at r = now + ttl * 60000000 \<and>
         map_option expires_at (db s' wid) = Some (now + ttl * 60000000)"
  proof (cases "file")
    case None
    show ?thesis unfolding None using a by (simp add: create_whisp_text timedelta_minutes_def)
  next
    case (Some f)
    show ?thesis unfolding Some using a Some by (simp add: create_whisp_file timedelta_minutes_def)
  qed
qed

theorem create_whisp_ttl_witness:
  "create_whisp sample_env 1000 ''w1'' ''k3y='' ''hello'' 0 None None empty_state
     = (Inl (HTTPException 400), empty_state, []) \<and>
   create_whisp sample_env 1000 ''w1'' ''k3y='' ''hello'' 10081 None None empty_state
     = (Inl (HTTPException 400), empty_state, []) \<and>
   (\<exists>r s'. create_whisp sample_env 1000 ''w1'' ''k3y='' ''hello'' 60 None None empty_state
       = (Inr r, s', [CleanupExpired]) \<and> read_id r = ''w1'' \<and> read_expires_at r = 3600001000 \<and>
         map_option expires_at (db s' ''w1'') = Some 3600001000)"
  using create_whisp_ttl [of sample_env 1000 "''w1''" "''k3y=''" "''hello''" 0 None None empty_state]
    create_whisp_ttl [of sample_env 1000 "''w1''" "''k3y=''" "''hello''" 10081 None None empty_state]
    create_whisp_ttl [of sample_env 1000 "''w1''" "''k3y=''" "''hello''" 60 None None empty_state]
  by (simp add: empty_state_def)

text \<open>
  A valid \<^verbatim>\<open>ttl_minutes\<close> alone does not make the call succeed: with an upload over the
  limit it answers 413.
\<close>

theorem valid_ttl_upload_refused:
  "fst (create_whisp sample_env 1000 ''w1'' ''k3y='' ''big.bin'' 1 None
         (Some \<lparr>filename = Some ''big.bin'', content = ''0123456789''\<rparr>) empty_state)
     = Inl (HTTPException 413)"
proof -
  have "can_open sample_env (blob_path sample_env ''w1'' \<lparr>filename = Some ''big.bin'', content = ''0123456789''\<rparr>)"
    by (simp add: sample_env_def blob_path_def safe_filename_def os_path_join_def os_path_basename_def)
  moreover have "int (length (content \<lparr>filename = Some ''big.bin'', content = ''0123456789''\<rparr>))
      > MAX_FILE_SIZE sample_env"
    by (simp add: sample_env_def)
  ultimately show ?thesis
    by (simp add: create_whisp_too_large)
qed

subsection \<open>Expiry\<close>

text \<open>
  Claim C6. A row whose \<^verbatim>\<open>expires_at\<close> is before the current time is answered with 404
  by \<^verbatim>\<open>get_whisp\<close> and by \<^verbatim>\<open>get_whisp_file\<close>, whatever the password, and the
  state stays as it was: the sweep need not have run. The sweep removes the row; every row
  it leaves was there before and has not expired; it does not touch the disk.
\<close>

theorem expired_unreachable_and_swept:
  assumes "db s wid = Some w" and "expires_at w < now"
  shows "get_whisp E now wid password s = (Inl (HTTPException 404), s) \<and>
     get_whisp_file E now wid password s = (Inl (HTTPException 404), s, []) \<and>
     db (cleanup_expired_whisps now s) wid = None \<and>
     (\<forall>k w'. db (cleanup_expired_whisps now s) k = Some w' \<longrightarrow>
        db s k = Some w' \<and> \<not> expires_at w' < now) \<and>
     files (cleanup_expired_whisps now s) = files s"
  using assms
  by (auto simp: get_whisp_expired get_whisp_file_expired cleanup_db cleanup_files
      split: option.splits if_splits)

theorem expired_unreachable_and_swept_witness:
  "get_whisp sample_env 1000 ''w1'' None expired_state = (Inl (HTTPException 404), expired_state) \<and>
   get_whisp_file sample_env 1000 ''w1'' None expired_state = (Inl (HTTPException 404), expired_state, []) \<and>
   db (cleanup_expired_whisps 1000 expired_state) ''w1'' = None"
proof -
  have row: "db expired_state ''w1'' =
      Some \<lparr>whisp_id = ''w1'', encrypted_payload = ''hello'', is_file = False,
            file_path = None, password_hash = None, expires_at = 500\<rparr>"
    by (simp add: expired_state_def)
  show ?thesis
    using expired_unreachable_and_swept [OF row, of 1000 sample_env None] by simp
qed

subsection \<open>Oversized uploads\<close>

text \<open>
  Claim C7, as amended. With a valid \<^verbatim>\<open>ttl_minutes\<close> (which is checked first), an upload
  of more than \<^verbatim>\<open>MAX_FILE_SIZE\<close> bytes is refused: with 413 when the file of the blob can
  be opened, and with the 500 of lines 252-258 when it cannot, since the file is opened
  before the first byte is counted. In both cases there is no file at the blob's path
  afterwards, every other file is as it was, the table is unchanged and no task is
  scheduled. Without a setting, the limit is 10 MiB.
\<close>

theorem oversized_upload_rejected:
  assumes "1 \<le> ttl" and "ttl \<le> 10080"
    and "int (length (content f)) > MAX_FILE_SIZE E"
  shows "(\<exists>s'. create_whisp E now wid key payload ttl password (Some f) s
          = (Inl (HTTPException (if can_open E (blob_path E wid f) then 413 else 500)), s', [])
       \<and> files s' (blob_path E wid f) = None
       \<and> (\<forall>p. p \<noteq> blob_path E wid f \<longrightarrow> files s' p = files s p)
       \<and> db s' = db s)
     \<and> max_file_size_setting None = 10 * 2 ^ 20"
  using assms
  by (cases "can_open E (blob_path E wid f)")
     (simp_all add: create_whisp_too_large create_whisp_not_opened max_file_size_setting_def)

theorem oversized_upload_rejected_witness:
  "\<exists>s'. create_whisp sample_env 1000 ''w1'' ''k3y='' ''big.bin'' 60 None
       (Some \<lparr>filename = Some ''big.bin'', content = ''123456789''\<rparr>) empty_state
        = (Inl (HTTPException 413), s', [])
    \<and> files s' ''/app/data/storage/w1_big.bin.enc'' = None"
proof -
  have size: "int (length (content \<lparr>filename = Some ''big.bin'', content = ''123456789''\<rparr>))
      > MAX_FILE_SIZE sample_env"
    by (simp add: sample_env_def)
  have path: "blob_path sample_env ''w1'' \<lparr>filename = Some ''big.bin'', content = ''123456789''\<rparr>
      = ''/app/data/storage/w1_big.bin.enc''"
    by (simp add: sample_env_def blob_path_def safe_filename_def os_path_join_def os_path_basename_def)
  have opened: "can_open sample_env ''/app/data/storage/w1_big.bin.enc''"
    by (simp add: sample_env_def os_path_basename_def)
  show ?thesis
    using oversized_upload_rejected [of 60 sample_env _ 1000 "''w1''" "''k3y=''" "''big.bin''" None empty_state, OF _ _ size]
    unfolding path by (auto simp: opened)
qed

text \<open>
  An oversized upload under a name of 250 bytes: the name of the blob has 257 bytes, the
  file cannot be opened, and the answer is 500.
\<close>

theorem oversized_upload_not_opened:
  "create_whisp sample_env 1000 ''w1'' ''k3y='' ''long'' 60 None (Some long_upload) empty_state
     = (Inl (HTTPException 500), empty_state, [])"
proof -
  have "create_whisp sample_env 1000 ''w1'' ''k3y='' ''long'' 60 None (Some long_upload) empty_state
     = (Inl (HTTPException 500),
        empty_state\<lparr>files := (files empty_state)(blob_path sample_env ''w1'' long_upload := None)\<rparr>, [])"
    using long_upload_facts(1) by (simp add: create_whisp_not_opened)
  then show ?thesis by (simp add: empty_state_def)
qed

subsection \<open>Text secrets are read once\<close>

text \<open>
  Claim C2. A text secret is created with payload \<^verbatim>\<open>payload\<close>, a valid
  \<^verbatim>\<open>ttl_minutes\<close> and a fresh id; the cleanup task of that request runs. If a password
  was set, the fetch supplies it and the hash verifies it. Then the first \<^verbatim>\<open>get_whisp\<close>
  before the expiry returns \<^verbatim>\<open>payload\<close>, the state it returns has no row for the id,
  and every later \<^verbatim>\<open>get_whisp\<close> on the id, at any time and with any password, answers
  404 and changes nothing.
\<close>

theorem text_round_trip:
  assumes "1 \<le> ttl" and "ttl \<le> 10080" and "db s wid = None"
    and "str_truthy password \<Longrightarrow>
      supplied = password \<and> verify_password E (the password) (get_password_hash E (the password))"
    and "tb \<le> now + timedelta_minutes ttl" and "t1 \<le> now + timedelta_minutes ttl"
  shows "(\<exists>d s1. create_whisp E now wid key payload ttl password None s = (Inr d, s1, [CleanupExpired])
            \<and> read_id d = wid) \<and>
     (case get_whisp E t1 wid supplied
             (request_done tb (create_whisp E now wid key payload ttl password None s)) of
        (r1, s2) \<Rightarrow>
          (\<exists>d. r1 = Inr d \<and> read_payload d = payload) \<and> db s2 wid = None \<and>
          (\<forall>t2 pw2. get_whisp E t2 wid pw2 s2 = (Inl (HTTPException 404), s2)))"
proof -
  let ?sb = "request_done tb (create_whisp E now wid key payload ttl password None s)"
  let ?w = "\<lparr>whisp_id = wid, encrypted_payload = payload, is_file = False, file_path = None,
         password_hash = (if str_truthy password then Some (get_password_hash E (the password)) else None),
         expires_at = now + timedelta_minutes ttl\<rparr>"
  have row: "db ?sb wid = Some ?w"
    using assms(1,2,3,5) by (rule request_done_create_text)
  have ok: "\<not> password_refused E ?w supplied"
    using assms(4) by (rule accepted_password)
  have fetch: "get_whisp E t1 wid supplied ?sb = (Inr (model_validate ?w), ?sb\<lparr>db := (db ?sb)(wid := None)\<rparr>)"
    using row _ ok by (rule get_whisp_text) (use assms(6) in simp_all)
  have created: "\<exists>d s1. create_whisp E now wid key payload ttl password None s = (Inr d, s1, [CleanupExpired])
            \<and> read_id d = wid"
    using assms(1,2,3) by (simp add: create_whisp_text)
  have gone: "\<forall>t2 pw2. get_whisp E t2 wid pw2 (?sb\<lparr>db := (db ?sb)(wid := None)\<rparr>)
       = (Inl (HTTPException 404), ?sb\<lparr>db := (db ?sb)(wid := None)\<rparr>)"
    by (rule get_whisp_gone) simp
  show ?thesis
    using created gone by (simp add: fetch model_validate_def)
qed

theorem text_round_trip_witness:
  "case get_whisp sample_env 2000 ''w1'' (Some ''pw'')
          (request_done 1500 (create_whisp sample_env 1000 ''w1'' ''k3y='' ''ciphertext'' 1 (Some ''pw'') None empty_state)) of
     (r1, s2) \<Rightarrow>
       (\<exists>d. r1 = Inr d \<and> read_payload d = ''ciphertext'') \<and> db s2 ''w1'' = None \<and>
       (\<forall>t2 pw2. get_whisp sample_env t2 ''w1'' pw2 s2 = (Inl (HTTPException 404), s2))"
proof -
  have pw: "str_truthy (Some ''pw'') \<Longrightarrow> Some ''pw'' = Some ''pw'' \<and>
      verify_password sample_env (the (Some ''pw'')) (get_password_hash sample_env (the (Some ''pw'')))"
    by (simp add: sample_env_def)
  have fresh: "db empty_state ''w1'' = None"
    by (simp add: empty_state_def)
  have times: "1500 \<le> 1000 + timedelta_minutes 1" "2000 \<le> 1000 + timedelta_minutes 1"
    by (simp_all add: timedelta_minutes_def)
  show ?thesis
    using text_round_trip [of 1 empty_state "''w1''" "Some ''pw''" "Some ''pw''" sample_env 1500 1000 2000
        "''k3y=''" "''ciphertext''", OF _ _ fresh pw times]
    by simp
qed

subsection \<open>File secrets are downloaded once\<close>

text \<open>
  Claim C3. A file secret is created from an upload within the size limit that the disk
  accepts. Assuming of the libraries that decrypting what was encrypted under the
  generated key returns the content, and that \<^verbatim>\<open>json.loads\<close> reads back what
  \<^verbatim>\<open>json.dumps\<close> wrote: \<^verbatim>\<open>get_whisp\<close> succeeds and returns the state unchanged, any
  number of times; the first \<^verbatim>\<open>get_whisp_file\<close> deletes the row, and every later
  \<^verbatim>\<open>get_whisp_file\<close> answers 404. When the display name the client sent can be encoded
  as Latin-1, the first \<^verbatim>\<open>get_whisp_file\<close> returns exactly the uploaded bytes. When it
  cannot, the call ends with \<^verbatim>\<open>UnicodeEncodeError\<close> after the row has been deleted: the
  bytes are never returned, the blob stays on disk, and the claim fails.
\<close>

theorem file_round_trip:
  assumes "1 \<le> ttl" and "ttl \<le> 10080" and "db s wid = None"
    and "int (length (content f)) \<le> MAX_FILE_SIZE E"
    and "can_open E (blob_path E wid f)"
    and "can_write E (blob_path E wid f) (fernet_encrypt E key (content f))"
    and "json_loads E (json_dumps E (JObj [(''filename'', JStr payload), (''key'', JStr key)]))
      = Some (JObj [(''filename'', JStr payload), (''key'', JStr key)])"
    and "key \<noteq> []" and "fernet_key_ok E key"
    and "fernet_decrypt E key (fernet_encrypt E key (content f)) = Some (content f)"
    and "tb \<le> now + timedelta_minutes ttl"
    and "sb = request_done tb (create_whisp E now wid key payload ttl password (Some f) s)"
    and "str_truthy password \<Longrightarrow>
      supplied = password \<and> verify_password E (the password) (get_password_hash E (the password))"
    and "t1 \<le> now + timedelta_minutes ttl" and "t2 \<le> now + timedelta_minutes ttl"
  shows "(\<exists>d. get_whisp E t1 wid supplied sb = (Inr d, sb) \<and> read_is_file d) \<and>
     (\<forall>n. ((\<lambda>x. snd (get_whisp E t1 wid supplied x)) ^^ n) sb = sb) \<and>
     (case get_whisp_file E t2 wid supplied sb of
        (r2, s2, tasks2) \<Rightarrow>
          (if latin1 payload
           then r2 = Inr \<lparr>resp_content = content f, resp_filename = JStr payload\<rparr> \<and>
                tasks2 = [DeleteFile (blob_path E wid f)]
           else r2 = Inl UnicodeEncodeError \<and> tasks2 = [] \<and>
                files s2 (blob_path E wid f) = Some (fernet_encrypt E key (content f))) \<and>
          db s2 wid = None \<and>
          (\<forall>t3 pw3. get_whisp_file E t3 wid pw3 s2 = (Inl (HTTPException 404), s2, [])) \<and>
          (\<forall>t3 pw3 t4. get_whisp_file E t3 wid pw3 (fold (run_task t4) tasks2 s2)
              = (Inl (HTTPException 404), fold (run_task t4) tasks2 s2, [])))"
proof -
  let ?s2 = "sb\<lparr>db := (db sb)(wid := None)\<rparr>"
  have meta: "get_whisp E t1 wid supplied sb =
     (Inr \<lparr>read_id = wid,
           read_payload = json_dumps E (JObj [(''filename'', JStr payload), (''key'', JStr key)]),
           read_is_file = True, read_expires_at = now + timedelta_minutes ttl\<rparr>, sb)"
    using assms(1-6,11-14) by (rule metadata_read_keeps_file)
  then have again: "\<forall>n. ((\<lambda>x. snd (get_whisp E t1 wid supplied x)) ^^ n) sb = sb"
    by (simp add: funpow_fixed)
  have sent: "get_whisp_file E t2 wid supplied sb =
     (Inr \<lparr>resp_content = content f, resp_filename = JStr payload\<rparr>,
      ?s2, [DeleteFile (blob_path E wid f)])" if "latin1 payload"
    using assms(1-13,15) that by (rule file_download(1))
  have lost: "get_whisp_file E t2 wid supplied sb = (Inl UnicodeEncodeError, ?s2, [])"
    if "\<not> latin1 payload"
    using assms(1-13,15) that by (rule file_download(2))
  have blob: "files sb (blob_path E wid f) = Some (fernet_encrypt E key (content f))"
    using assms(1-10,11,12) refl by (rule created_file_row(2))
  have gone: "get_whisp_file E t3 wid pw3 ?s2 = (Inl (HTTPException 404), ?s2, [])" for t3 pw3
    by (rule get_whisp_file_gone) simp
  have gone': "get_whisp_file E t3 wid pw3 (delete_file p ?s2)
      = (Inl (HTTPException 404), delete_file p ?s2, [])" for t3 pw3 p
    by (rule get_whisp_file_gone) (simp add: delete_file_db)
  show ?thesis
  proof (cases "latin1 payload")
    case True
    show ?thesis
      using again gone gone' True by (simp add: meta sent [OF True])
  next
    case False
    show ?thesis
      using again gone False blob by (simp add: meta lost [OF False])
  qed
qed

theorem file_round_trip_witness:
  "case get_whisp_file sample_env 2000 ''w1'' None
          (request_done 1500 (create_whisp sample_env 1000 ''w1'' ''k3y='' omega_name 60 None
             (Some omega_upload) empty_state)) of
     (r2, s2, tasks2) \<Rightarrow>
       r2 = Inl UnicodeEncodeError \<and> tasks2 = [] \<and>
       files s2 ''/app/data/storage/w1_notes.txt.enc'' = Some ''k3y=hello'' \<and>
       db s2 ''w1'' = None \<and>
       (\<forall>t3 pw3. get_whisp_file sample_env t3 ''w1'' pw3 s2 = (Inl (HTTPException 404), s2, []))"
proof -
  have pw: "str_truthy None \<Longrightarrow> None = None \<and>
      verify_password sample_env (the None) (get_password_hash sample_env (the None))"
    by simp
  have times: "1500 \<le> 1000 + timedelta_minutes 60" "2000 \<le> 1000 + timedelta_minutes 60"
    by (simp_all add: timedelta_minutes_def)
  have key: "''k3y='' \<noteq> []" by simp
  have opened: "can_open sample_env (blob_path sample_env ''w1'' omega_upload)"
    unfolding omega_facts(3) by (rule sample_facts(7))
  show ?thesis
    using file_round_trip [where ttl = 60 and payload = omega_name and ?t1.0 = 2000,
        OF _ _ sample_facts(1) omega_facts(2) opened sample_facts(8) sample_facts(9) key
           sample_facts(3) omega_facts(4) times(1) refl pw times(2) times(2)]
    by (simp add: omega_facts(1,3,5) split: prod.splits)
qed

subsection \<open>The password gate\<close>

text \<open>
  Claim C5, as amended. A secret is created with a passphrase \<^verbatim>\<open>P\<close> (not empty, with a
  hash that is not empty and verifies \<^verbatim>\<open>P\<close>); \<^verbatim>\<open>st\<close> is the state after creating it
  as a text secret, \<^verbatim>\<open>sf\<close> after creating it as a file secret whose display name can be
  encoded as Latin-1. A bad password is none, an empty one or one the hash does not
  verify. On the text secret, \<^verbatim>\<open>get_whisp\<close> with a bad password answers 401 and changes
  nothing, \<^verbatim>\<open>get_whisp\<close> with \<^verbatim>\<open>P\<close> succeeds and deletes the row, and
  \<^verbatim>\<open>get_whisp_file\<close> answers 404 whatever the password. On the file secret, both
  fetches with a bad password answer 401 and change nothing, \<^verbatim>\<open>get_whisp\<close> with
  \<^verbatim>\<open>P\<close> succeeds and keeps the row, and \<^verbatim>\<open>get_whisp_file\<close> with \<^verbatim>\<open>P\<close> returns the
  content and deletes the row.
\<close>

theorem password_gate:
  assumes "1 \<le> ttl" and "ttl \<le> 10080" and "db s wid = None"
    and "P \<noteq> []" and "get_password_hash E P \<noteq> []"
    and "verify_password E P (get_password_hash E P)"
    and "\<not> str_truthy bad \<or> \<not> verify_password E (the bad) (get_password_hash E P)"
    and "tb \<le> now + timedelta_minutes ttl" and "t \<le> now + timedelta_minutes ttl"
    and "int (length (content f)) \<le> MAX_FILE_SIZE E"
    and "can_open E (blob_path E wid f)"
    and "can_write E (blob_path E wid f) (fernet_encrypt E key (content f))"
    and "json_loads E (json_dumps E (JObj [(''filename'', JStr payload), (''key'', JStr key)]))
      = Some (JObj [(''filename'', JStr payload), (''key'', JStr key)])"
    and "key \<noteq> []" and "fernet_key_ok E key"
    and "fernet_decrypt E key (fernet_encrypt E key (content f)) = Some (content f)"
    and "st = request_done tb (create_whisp E now wid key payload ttl (Some P) None s)"
    and "sf = request_done tb (create_whisp E now wid key payload ttl (Some P) (Some f) s)"
  shows "get_whisp E t wid bad st = (Inl (HTTPException 401), st) \<and>
     (\<exists>d s2. get_whisp E t wid (Some P) st = (Inr d, s2) \<and> read_payload d = payload \<and>
        db s2 wid = None) \<and>
     (\<forall>pw. get_whisp_file E t wid pw st = (Inl (HTTPException 404), st, [])) \<and>
     get_whisp E t wid bad sf = (Inl (HTTPException 401), sf) \<and>
     get_whisp_file E t wid bad sf = (Inl (HTTPException 401), sf, []) \<and>
     (\<exists>d. get_whisp E t wid (Some P) sf = (Inr d, sf) \<and> read_is_file d) \<and>
     (latin1 payload \<longrightarrow>
       (\<exists>s2 ts. get_whisp_file E t wid (Some P) sf =
            (Inr \<lparr>resp_content = content f, resp_filename = JStr payload\<rparr>, s2, ts) \<and>
          db s2 wid = None))"
proof -
  let ?h = "if str_truthy (Some P) then Some (get_password_hash E (the (Some P))) else None"
  let ?wt = "\<lparr>whisp_id = wid, encrypted_payload = payload, is_file = False, file_path = None,
         password_hash = ?h, expires_at = now + timedelta_minutes ttl\<rparr>"
  let ?wf = "\<lparr>whisp_id = wid,
         encrypted_payload = json_dumps E (JObj [(''filename'', JStr payload), (''key'', JStr key)]),
         is_file = True, file_path = Some (blob_path E wid f),
         password_hash = ?h, expires_at = now + timedelta_minutes ttl\<rparr>"
  have live: "\<not> now + timedelta_minutes ttl < t"
    using assms(9) by simp
  have rowt: "db st wid = Some ?wt"
    unfolding assms(17) using assms(1,2,3,8) by (rule request_done_create_text)
  have rowf: "db sf wid = Some ?wf"
    unfolding assms(18) using assms(1,2,3,8,10,11,12) by (rule request_done_create_file(1))
  have blob: "files sf (blob_path E wid f) = Some (fernet_encrypt E key (content f))"
    unfolding assms(18) using assms(1,2,3,8,10,11,12) by (rule request_done_create_file(2))
  have badt: "password_refused E ?wt bad"
    using assms(4,5,7) by (rule wrong_password_refused)
  have badf: "password_refused E ?wf bad"
    using assms(4,5,7) by (rule wrong_password_refused)
  have pw: "str_truthy (Some P) \<Longrightarrow>
      Some P = Some P \<and> verify_password E (the (Some P)) (get_password_hash E (the (Some P)))"
    using assms(6) by simp
  have goodt: "\<not> password_refused E ?wt (Some P)"
    using pw by (rule accepted_password)
  have c1: "get_whisp E t wid bad st = (Inl (HTTPException 401), st)"
    using rowt _ badt by (rule get_whisp_refused) (use live in simp)
  have c2: "get_whisp E t wid (Some P) st = (Inr (model_validate ?wt), st\<lparr>db := (db st)(wid := None)\<rparr>)"
    using rowt _ goodt by (rule get_whisp_text) (use live in simp_all)
  have c3: "get_whisp_file E t wid pw st = (Inl (HTTPException 404), st, [])" for pw
    using rowt by (rule get_whisp_file_not_a_file) simp
  have c4: "get_whisp E t wid bad sf = (Inl (HTTPException 401), sf)"
    using rowf _ badf by (rule get_whisp_refused) (use live in simp)
  have c5: "get_whisp_file E t wid bad sf = (Inl (HTTPException 401), sf, [])"
    using rowf _ _ _ blob_path_nonempty blob badf
    by (rule get_whisp_file_refused) (use live in simp_all)
  have c6: "get_whisp E t wid (Some P) sf =
     (Inr \<lparr>read_id = wid,
           read_payload = json_dumps E (JObj [(''filename'', JStr payload), (''key'', JStr key)]),
           read_is_file = True, read_expires_at = now + timedelta_minutes ttl\<rparr>, sf)"
    using assms(1,2,3,10,11,12,8,18) pw assms(9) by (rule metadata_read_keeps_file)
  have c7: "get_whisp_file E t wid (Some P) sf =
     (Inr \<lparr>resp_content = content f, resp_filename = JStr payload\<rparr>,
      sf\<lparr>db := (db sf)(wid := None)\<rparr>, [DeleteFile (blob_path E wid f)])" if "latin1 payload"
    using assms(1,2,3,10,11,12,13,14,15,16,8,18) pw assms(9) that by (rule file_download(1))
  show ?thesis
    using c3 c7 by (simp add: c1 c2 c4 c5 c6 model_validate_def)
qed

theorem password_gate_witness:
  "get_whisp sample_env 2000 ''w1'' (Some ''guess'')
      (request_done 1500 (create_whisp sample_env 1000 ''w1'' ''k3y='' ''notes.txt'' 60 (Some ''pw'') None empty_state))
     = (Inl (HTTPException 401),
        request_done 1500 (create_whisp sample_env 1000 ''w1'' ''k3y='' ''notes.txt'' 60 (Some ''pw'') None empty_state)) \<and>
   get_whisp_file sample_env 2000 ''w1'' None
      (request_done 1500 (create_whisp sample_env 1000 ''w1'' ''k3y='' ''notes.txt'' 60 (Some ''pw'') (Some notes_upload) empty_state))
     = (Inl (HTTPException 401),
        request_done 1500 (create_whisp sample_env 1000 ''w1'' ''k3y='' ''notes.txt'' 60 (Some ''pw'') (Some notes_upload) empty_state), []) \<and>
   (\<exists>s2 ts. get_whisp_file sample_env 2000 ''w1'' (Some ''pw'')
      (request_done 1500 (create_whisp sample_env 1000 ''w1'' ''k3y='' ''notes.txt'' 60 (Some ''pw'') (Some notes_upload) empty_state))
     = (Inr \<lparr>resp_content = ''hello'', resp_filename = JStr ''notes.txt''\<rparr>, s2, ts) \<and> db s2 ''w1'' = None)"
proof -
  have hash: "''pw'' \<noteq> []" "get_password_hash sample_env ''pw'' \<noteq> []"
      "verify_password sample_env ''pw'' (get_password_hash sample_env ''pw'')"
    by (simp_all add: sample_env_def)
  have guess: "\<not> str_truthy (Some ''guess'') \<or>
      \<not> verify_password sample_env (the (Some ''guess'')) (get_password_hash sample_env ''pw'')"
    by (simp add: sample_env_def)
  have none: "\<not> str_truthy None \<or>
      \<not> verify_password sample_env (the None) (get_password_hash sample_env ''pw'')"
    by simp
  have times: "1500 \<le> 1000 + timedelta_minutes 60" "2000 \<le> 1000 + timedelta_minutes 60"
    by (simp_all add: timedelta_minutes_def)
  have key: "''k3y='' \<noteq> []" by simp
  have opened: "can_open sample_env (blob_path sample_env ''w1'' notes_upload)"
    unfolding sample_facts(6) by (rule sample_facts(7))
  have name: "latin1 ''notes.txt''" by (simp add: latin1_def)
  note gate = password_gate [where ttl = 60 and payload = "''notes.txt''",
      OF _ _ sample_facts(1) hash _ times sample_facts(2) opened sample_facts(8) sample_facts(5) key
         sample_facts(3,4) refl refl]
  from gate [OF _ _ guess] gate [OF _ _ none] show ?thesis
    by (simp add: notes_content name)
qed

text \<open>
  The two fetches the claim is wrong about: \<^verbatim>\<open>get_whisp_file\<close> without a password on a
  text secret answers 404, not 401, and \<^verbatim>\<open>get_whisp\<close> with the passphrase on a file
  secret succeeds and leaves the row in the table.
\<close>

theorem password_gate_other_fetch:
  "fst (get_whisp_file sample_env 2000 ''w1'' None
      (request_done 1500 (create_whisp sample_env 1000 ''w1'' ''k3y='' ''ciphertext'' 60 (Some ''pw'') None empty_state)))
     = Inl (HTTPException 404) \<and>
   (\<exists>d. get_whisp sample_env 2000 ''w1'' (Some ''pw'')
      (request_done 1500 (create_whisp sample_env 1000 ''w1'' ''k3y='' ''notes.txt'' 60 (Some ''pw'') (Some notes_upload) empty_state))
     = (Inr d,
        request_done 1500 (create_whisp sample_env 1000 ''w1'' ''k3y='' ''notes.txt'' 60 (Some ''pw'') (Some notes_upload) empty_state))) \<and>
   db (request_done 1500 (create_whisp sample_env 1000 ''w1'' ''k3y='' ''notes.txt'' 60 (Some ''pw'') (Some notes_upload) empty_state)) ''w1''
     \<noteq> None"
proof -
  have times: "1500 \<le> 1000 + timedelta_minutes 60" "2000 \<le> 1000 + timedelta_minutes 60"
    by (simp_all add: timedelta_minutes_def)
  have opened: "can_open sample_env (blob_path sample_env ''w1'' notes_upload)"
    unfolding sample_facts(6) by (rule sample_facts(7))
  have pw: "str_truthy (Some ''pw'') \<Longrightarrow> Some ''pw'' = Some ''pw'' \<and>
      verify_password sample_env (the (Some ''pw'')) (get_password_hash sample_env (the (Some ''pw'')))"
    by (simp add: sample_env_def)
  have text_row: "db (request_done 1500 (create_whisp sample_env 1000 ''w1'' ''k3y='' ''ciphertext'' 60 (Some ''pw'') None empty_state)) ''w1''
      = Some \<lparr>whisp_id = ''w1'', encrypted_payload = ''ciphertext'', is_file = False, file_path = None,
         password_hash = (if str_truthy (Some ''pw'') then Some (get_password_hash sample_env (the (Some ''pw''))) else None),
         expires_at = 1000 + timedelta_minutes 60\<rparr>"
    by (rule request_done_create_text) (simp_all add: sample_facts(1) times)
  have a: "fst (get_whisp_file sample_env 2000 ''w1'' None
      (request_done 1500 (create_whisp sample_env 1000 ''w1'' ''k3y='' ''ciphertext'' 60 (Some ''pw'') None empty_state)))
     = Inl (HTTPException 404)"
    using get_whisp_file_not_a_file [OF text_row] by simp
  have file_row: "db (request_done 1500 (create_whisp sample_env 1000 ''w1'' ''k3y='' ''notes.txt'' 60 (Some ''pw'') (Some notes_upload) empty_state)) ''w1''
      \<noteq> None"
    using request_done_create_file(1) [where ttl = 60 and E = sample_env and f = notes_upload
        and tb = 1500 and now = 1000 and wid = "''w1''" and s = empty_state,
        OF _ _ sample_facts(1) times(1) sample_facts(2) opened sample_facts(8)]
    by simp
  have b: "get_whisp sample_env 2000 ''w1'' (Some ''pw'')
      (request_done 1500 (create_whisp sample_env 1000 ''w1'' ''k3y='' ''notes.txt'' 60 (Some ''pw'') (Some notes_upload) empty_state))
     = (Inr \<lparr>read_id = ''w1'',
           read_payload = json_dumps sample_env (JObj [(''filename'', JStr ''notes.txt''), (''key'', JStr ''k3y='')]),
           read_is_file = True, read_expires_at = 1000 + timedelta_minutes 60\<rparr>,
        request_done 1500 (create_whisp sample_env 1000 ''w1'' ''k3y='' ''notes.txt'' 60 (Some ''pw'') (Some notes_upload) empty_state))"
    by (rule metadata_read_keeps_file [where ttl = 60, OF _ _ sample_facts(1,2) opened sample_facts(8) times(1) refl pw times(2)])
       simp_all
  show ?thesis using a b file_row by simp
qed

subsection \<open>A blob that does not authenticate\<close>

text \<open>
  Claim C8. When the key in the payload is a well-formed key and \<^verbatim>\<open>f.decrypt\<close> rejects
  the stored blob, \<^verbatim>\<open>get_whisp_file\<close> ends with the exception \<^verbatim>\<open>InvalidToken\<close> of
  that call; the state is returned as it was, so the row is still there, and no task is
  scheduled.
\<close>

theorem corrupt_blob_raises:
  assumes "db s wid = Some w" and "is_file w" and "file_path w = Some p" and "p \<noteq> []"
    and "\<not> expires_at w < now"
    and "files s p = Some blob"
    and "\<not> password_refused E w password"
    and "json_loads E (encrypted_payload w) = Some (JObj kvs)"
    and "dict_get kvs ''key'' = JStr k" and "k \<noteq> []" and "fernet_key_ok E k"
    and "fernet_decrypt E k blob = None"
  shows "get_whisp_file E now wid password s = (Inl InvalidToken, s, [])"
proof -
  have "fst (read_metadata E (encrypted_payload w)) = JStr k"
    using assms(8,9) by (simp add: read_metadata_def)
  then have "read_content E (fst (read_metadata E (encrypted_payload w))) blob = Inl InvalidToken"
    using assms(10-12) by (simp add: read_content_invalid_token)
  with assms(1,5,2,3,4,6,7) show ?thesis by (rule get_whisp_file_raises)
qed

theorem corrupt_blob_raises_witness:
  "get_whisp_file sample_env 1000 ''w2'' None stored_state = (Inl InvalidToken, stored_state, [])"
proof -
  let ?w = \<open>\<lparr>whisp_id = ''w2'', encrypted_payload = ''{"filename": "notes.txt", "key": "k3y="}'',
             is_file = True, file_path = Some ''/app/data/storage/w2_notes.txt.enc'',
             password_hash = None, expires_at = 5000\<rparr>\<close>
  have row: "db stored_state ''w2'' = Some ?w"
    by (simp add: stored_state_def)
  have blob: "files stored_state ''/app/data/storage/w2_notes.txt.enc'' = Some ''XXXXhello''"
    by (simp add: stored_state_def)
  have loads: "json_loads sample_env (encrypted_payload ?w)
      = Some (JObj [(''filename'', JStr ''notes.txt''), (''key'', JStr ''k3y='')])"
    by (simp add: sample_env_def sample_loads_def)
  have key: "dict_get [(''filename'', JStr ''notes.txt''), (''key'', JStr ''k3y='')] ''key'' = JStr ''k3y=''"
    by (simp add: dict_get_def)
  have open_gate: "\<not> password_refused sample_env ?w None"
    by (simp add: password_refused_def)
  have bad: "fernet_decrypt sample_env ''k3y='' ''XXXXhello'' = None"
    by (simp add: sample_env_def)
  have ok: "fernet_key_ok sample_env ''k3y=''"
    by (simp add: sample_env_def)
  show ?thesis
    using corrupt_blob_raises [OF row _ _ _ _ blob open_gate loads key _ ok bad, of 1000]
    by simp
qed

subsection \<open>The path of a blob\<close>

text \<open>
  Claim C9, as amended. The sanitized name is what follows the last slash of the supplied
  name (of \<^verbatim>\<open>unnamed\<close> when none was supplied), so it contains no slash. When the id
  contains no slash, as a UUID does not, the path of the blob is the storage directory
  followed by the single component \<^verbatim>\<open>id_name.enc\<close>, which has no slash and is neither
  empty nor one or two dots.
\<close>

theorem blob_path_inside_storage_dir:
  assumes "CHR ''/'' \<notin> set wid"
  shows "CHR ''/'' \<notin> set (safe_filename f) \<and>
     (\<exists>d. (if str_truthy (filename f) then the (filename f) else ''unnamed'') = d @ safe_filename f
         \<and> (d = [] \<or> last d = CHR ''/'')) \<and>
     (let name = wid @ ''_'' @ safe_filename f @ ''.enc'';
          dir = (if STORAGE_DIR E = [] \<or> last (STORAGE_DIR E) = CHR ''/''
                 then STORAGE_DIR E else STORAGE_DIR E @ ''/'')
      in blob_path E wid f = dir @ name \<and>
         CHR ''/'' \<notin> set name \<and> name \<noteq> [] \<and> name \<noteq> ''.'' \<and> name \<noteq> ''..'' \<and>
         os_path_basename (blob_path E wid f) = name)"
proof -
  let ?name = "wid @ ''_'' @ safe_filename f @ ''.enc''"
  let ?dir = "if STORAGE_DIR E = [] \<or> last (STORAGE_DIR E) = CHR ''/''
                 then STORAGE_DIR E else STORAGE_DIR E @ ''/''"
  have safe: "CHR ''/'' \<notin> set (safe_filename f)"
    by (simp add: safe_filename_def basename_no_slash)
  have stripped: "\<exists>d. (if str_truthy (filename f) then the (filename f) else ''unnamed'') = d @ safe_filename f
         \<and> (d = [] \<or> last d = CHR ''/'')"
    unfolding safe_filename_def by (rule basename_suffix)
  have noslash: "CHR ''/'' \<notin> set ?name"
    using assms safe by simp
  have ne: "?name \<noteq> []" by simp
  have "hd ?name \<in> set ?name" using ne by (rule hd_in_set)
  with noslash have hd: "hd ?name \<noteq> CHR ''/''" by metis
  have path: "blob_path E wid f = ?dir @ ?name"
    unfolding blob_path_def using ne hd by (rule join_relative)
  have dots: "?name \<noteq> ''.''" "?name \<noteq> ''..''"
  proof -
    show "?name \<noteq> ''.''"
    proof
      assume e: "?name = ''.''"
      have "length ?name = length ''.''" by (simp only: e)
      then show False by simp
    qed
    show "?name \<noteq> ''..''"
    proof
      assume e: "?name = ''..''"
      have "length ?name = length ''..''" by (simp only: e)
      then show False by simp
    qed
  qed
  have dirend: "?dir = [] \<or> last ?dir = CHR ''/''" by simp
  have base: "os_path_basename (blob_path E wid f) = ?name"
    unfolding path using noslash dirend by (rule basename_of_joined)
  show ?thesis
    using safe stripped path noslash ne dots base by (simp only: Let_def) blast
qed

theorem blob_path_inside_storage_dir_witness:
  "blob_path sample_env ''w1'' \<lparr>filename = Some ''../../etc/passwd'', content = ''x''\<rparr>
     = ''/app/data/storage/w1_passwd.enc'' \<and>
   os_path_basename (blob_path sample_env ''w1'' \<lparr>filename = Some ''../../etc/passwd'', content = ''x''\<rparr>)
     = ''w1_passwd.enc''"
proof -
  have id: "CHR ''/'' \<notin> set ''w1''" by simp
  have name: "safe_filename \<lparr>filename = Some ''../../etc/passwd'', content = ''x''\<rparr> = ''passwd''"
    by (simp add: safe_filename_def os_path_basename_def)
  have dir: "STORAGE_DIR sample_env = ''/app/data/storage''"
    by (simp add: sample_env_def)
  from blob_path_inside_storage_dir [OF id, of "\<lparr>filename = Some ''../../etc/passwd'', content = ''x''\<rparr>" sample_env]
  have "blob_path sample_env ''w1'' \<lparr>filename = Some ''../../etc/passwd'', content = ''x''\<rparr>
        = ''/app/data/storage/w1_passwd.enc''"
    and "os_path_basename (blob_path sample_env ''w1'' \<lparr>filename = Some ''../../etc/passwd'', content = ''x''\<rparr>)
        = ''w1_passwd.enc''"
    by (simp_all add: name dir Let_def os_path_basename_def)
  then show ?thesis by (simp only: simp_thms)
qed

text \<open>
  The sanitized name itself can still be the parent directory: a last component of two
  dots is returned as it is, and ends up inside the name of the blob.
\<close>

theorem parent_component_kept:
  "safe_filename \<lparr>filename = Some ''..'', content = ''x''\<rparr> = ''..'' \<and>
   safe_filename \<lparr>filename = Some ''docs/..'', content = ''x''\<rparr> = ''..'' \<and>
   blob_path sample_env ''w1'' \<lparr>filename = Some ''..'', content = ''x''\<rparr>
     = ''/app/data/storage/w1_...enc''"
  by (simp add: safe_filename_def blob_path_def os_path_basename_def os_path_join_def sample_env_def)

subsection \<open>Payloads without a key\<close>

text \<open>
  Claim C10, as amended. For a file row that passes the checks and whose payload is not a
  JSON object with a true \<^verbatim>\<open>key\<close> member, the file name is \<^verbatim>\<open>downloaded_file\<close> when
  the payload is not JSON or not a JSON object, and the object's \<^verbatim>\<open>filename\<close> member
  (\<^verbatim>\<open>None\<close> without one) when it is a JSON object. When that name can be encoded as
  Latin-1, \<^verbatim>\<open>get_whisp_file\<close> returns the blob as stored under that name, deletes the row
  and schedules the removal of the blob.
\<close>

theorem payload_without_key_served_verbatim:
  assumes "db s wid = Some w" and "is_file w" and "file_path w = Some p" and "p \<noteq> []"
    and "\<not> expires_at w < now"
    and "files s p = Some blob"
    and "\<not> password_refused E w password"
    and "\<forall>kvs. json_loads E (encrypted_payload w) = Some (JObj kvs) \<longrightarrow> \<not> truthy (dict_get kvs ''key'')"
    and "fname = (case json_loads E (encrypted_payload w) of
                    Some (JObj kvs) \<Rightarrow> dict_get kvs ''filename''
                  | _ \<Rightarrow> JStr ''downloaded_file'')"
    and "filename_latin1 E fname"
  shows "get_whisp_file E now wid password s =
     (Inr \<lparr>resp_content = blob, resp_filename = fname\<rparr>,
      s\<lparr>db := (db s)(wid := None)\<rparr>, [DeleteFile p])"
proof -
  have key: "\<not> truthy (fst (read_metadata E (encrypted_payload w)))"
    using assms(8) by (auto simp: read_metadata_def split: option.splits json.splits)
  have name: "snd (read_metadata E (encrypted_payload w)) = fname"
    unfolding assms(9) by (simp add: read_metadata_def split: option.splits json.splits)
  have plain: "read_content E (fst (read_metadata E (encrypted_payload w))) blob = Inr blob"
    using key by (simp add: read_content_def)
  have enc: "filename_latin1 E (snd (read_metadata E (encrypted_payload w)))"
    unfolding name by (rule assms(10))
  have "get_whisp_file E now wid password s =
     (Inr \<lparr>resp_content = blob, resp_filename = snd (read_metadata E (encrypted_payload w))\<rparr>,
      s\<lparr>db := (db s)(wid := None)\<rparr>, [DeleteFile p])"
    using assms(1,5,2,3,4,6,7) plain enc by (rule get_whisp_file_served)
  then show ?thesis by (simp only: name)
qed

theorem payload_without_key_served_verbatim_witness:
  "get_whisp_file sample_env 1000 ''w4'' None stored_state =
     (Inr \<lparr>resp_content = ''bytes'', resp_filename = JStr ''downloaded_file''\<rparr>,
      stored_state\<lparr>db := (db stored_state)(''w4'' := None)\<rparr>,
      [DeleteFile ''/app/data/storage/w4_old.bin''])"
proof -
  let ?w = "\<lparr>whisp_id = ''w4'', encrypted_payload = ''old.bin'',
             is_file = True, file_path = Some ''/app/data/storage/w4_old.bin'',
             password_hash = None, expires_at = 5000\<rparr>"
  have row: "db stored_state ''w4'' = Some ?w"
    by (simp add: stored_state_def)
  have blob: "files stored_state ''/app/data/storage/w4_old.bin'' = Some ''bytes''"
    by (simp add: stored_state_def)
  have loads: "json_loads sample_env ''old.bin'' = None"
    by (simp add: sample_env_def sample_loads_def)
  have nokey: "\<forall>kvs. json_loads sample_env (encrypted_payload ?w) = Some (JObj kvs)
      \<longrightarrow> \<not> truthy (dict_get kvs ''key'')"
    by (simp add: loads)
  have name: "JStr ''downloaded_file'' = (case json_loads sample_env (encrypted_payload ?w) of
                    Some (JObj kvs) \<Rightarrow> dict_get kvs ''filename''
                  | _ \<Rightarrow> JStr ''downloaded_file'')"
    by (simp add: loads)
  have enc: "filename_latin1 sample_env (JStr ''downloaded_file'')"
    by (simp add: filename_latin1_def latin1_def)
  have open_gate: "\<not> password_refused sample_env ?w None"
    by (simp add: password_refused_def)
  show ?thesis
    using payload_without_key_served_verbatim [OF row _ _ _ _ blob open_gate nokey name enc, of 1000]
    by simp
qed

text \<open>
  A payload that is a JSON object with a file name and no key is served under that name,
  not as \<^verbatim>\<open>downloaded_file\<close>.
\<close>

theorem keyless_json_keeps_its_filename:
  \<open>json_loads sample_env ''{"filename": "report.pdf"}'' = Some (JObj [(''filename'', JStr ''report.pdf'')]) \<and>
   fst (get_whisp_file sample_env 1000 ''w3'' None stored_state)
     = Inr \<lparr>resp_content = ''%PDF'', resp_filename = JStr ''report.pdf''\<rparr>\<close>
  by (simp add: get_whisp_file_def stored_state_def sample_env_def sample_loads_def
      password_refused_def read_metadata_def read_content_def dict_get_def Let_def
      make_response_def filename_latin1_def latin1_def)

end
